theory Spec2Isabelle
  imports Complex_Main "HOL-Library.Word" "HOL-Library.Multiset"
begin

unbundle bit_operations_syntax

section \<open>The mix endpoint of \<open>app/api/mix/route.ts\<close> (final version)\<close>

text \<open>
  The model follows the second, final text of \<open>route.ts\<close> (the one with
  \<open>SITUATION_PRESETS\<close> and \<open>buildBlocksWithArtwork\<close>). JavaScript strings are
  modelled as \<open>string\<close>, read as sequences of code units below 256 (Latin-1);
  numbers that the code only ever holds as small integers or halves are \<open>nat\<close>, \<open>int\<close>
  or \<open>rat\<close>, where double arithmetic is exact.
\<close>

subsection \<open>String helpers of the JavaScript runtime\<close>

text \<open>White space as \<open>String.prototype.trim\<close> and the regular expression class
  \<open>\s\<close> see it, among the code units below 256: TAB, LF, VT, FF, CR, SP, NBSP.\<close>

definition is_space :: "char \<Rightarrow> bool" where
  "is_space c \<longleftrightarrow> c \<in> set [CHR 0x09, CHR 0x0A, CHR 0x0B, CHR 0x0C, CHR 0x0D, CHR 0x20, CHR 0xA0]"

definition trim :: "string \<Rightarrow> string" where
  "trim s = rev (dropWhile is_space (rev (dropWhile is_space s)))"

text \<open>\<open>toLowerCase\<close> on one code unit below 256: A-Z and the accented capitals
  0xC0-0xDE (without the multiplication sign 0xD7) move up by 32.\<close>

definition lower_char :: "char \<Rightarrow> char" where
  "lower_char c =
     (let n = (of_char c :: nat)
      in if (65 \<le> n \<and> n \<le> 90) \<or> (192 \<le> n \<and> n \<le> 222 \<and> n \<noteq> 215)
         then char_of (n + 32) else c)"

definition toLowerCase :: "string \<Rightarrow> string" where
  "toLowerCase s = map lower_char s"

text \<open>\<open>toUpperCase\<close> of a one-character string, as used on the first letter of the
  fixed phrases and of the catalog's \<open>sonicTag\<close>; these start with an ASCII letter.\<close>

definition upper_char :: "char \<Rightarrow> char" where
  "upper_char c =
     (let n = (of_char c :: nat)
      in if 97 \<le> n \<and> n \<le> 122 then char_of (n - 32) else c)"

text \<open>\<open>s.charAt(0).toUpperCase() + s.slice(1)\<close>.\<close>

definition capitalize :: "string \<Rightarrow> string" where
  "capitalize s = (case s of [] \<Rightarrow> [] | c # cs \<Rightarrow> upper_char c # cs)"

text \<open>\<open>String.prototype.includes\<close>: \<open>js_includes s p\<close> is \<open>s.includes(p)\<close>.\<close>

fun starts_with :: "string \<Rightarrow> string \<Rightarrow> bool" where
  "starts_with s [] = True"
| "starts_with [] (p # ps) = False"
| "starts_with (c # cs) (p # ps) = (c = p \<and> starts_with cs ps)"

fun js_includes :: "string \<Rightarrow> string \<Rightarrow> bool" where
  "js_includes [] p = (p = [])"
| "js_includes (c # cs) p = (starts_with (c # cs) p \<or> js_includes cs p)"

text \<open>Template-literal rendering of a non-negative integer.\<close>

definition digit_char :: "nat \<Rightarrow> char" where
  "digit_char d = char_of (48 + d)"

fun string_of_nat :: "nat \<Rightarrow> string" where
  "string_of_nat n =
     (if n < 10 then [digit_char n] else string_of_nat (n div 10) @ [digit_char (n mod 10)])"

declare string_of_nat.simps [simp del]

definition is_digit :: "char \<Rightarrow> bool" where
  "is_digit c \<longleftrightarrow> 48 \<le> (of_char c :: nat) \<and> (of_char c :: nat) \<le> 57"

definition digit_val :: "char \<Rightarrow> nat" where
  "digit_val c = (of_char c :: nat) - 48"

subsection \<open>Types of the route\<close>

datatype TimeBucket = morning | midday | evening | late_night

datatype Tweak = more_new | more_familiar | no_repeats | none

datatype EngineMode = my_engine | spotify_ai

datatype Situation = working_out | working | studying | dinner | party | chill | auto

text \<open>The string each union member is in the source; template literals print it.\<close>

fun bucket_name :: "TimeBucket \<Rightarrow> string" where
  "bucket_name morning = ''morning''"
| "bucket_name midday = ''midday''"
| "bucket_name evening = ''evening''"
| "bucket_name late_night = ''late_night''"

fun tweak_name :: "Tweak \<Rightarrow> string" where
  "tweak_name more_new = ''more_new''"
| "tweak_name more_familiar = ''more_familiar''"
| "tweak_name no_repeats = ''no_repeats''"
| "tweak_name none = ''none''"

fun engine_name :: "EngineMode \<Rightarrow> string" where
  "engine_name my_engine = ''my_engine''"
| "engine_name spotify_ai = ''spotify_ai''"

fun situation_name :: "Situation \<Rightarrow> string" where
  "situation_name working_out = ''working_out''"
| "situation_name working = ''working''"
| "situation_name studying = ''studying''"
| "situation_name dinner = ''dinner''"
| "situation_name party = ''party''"
| "situation_name chill = ''chill''"
| "situation_name auto = ''auto''"

record Track =
  tr_id :: string
  tr_name :: string
  tr_artist :: string
  reason :: string
  reason_signal :: "string option"
  track_url :: string
  artwork_url :: "string option"

record Block =
  block_id :: string
  block_title :: string
  block_subtitle :: string
  why_now :: string
  tracks :: "Track list"

record BlockIntent =
  bi_title :: string
  bi_subtitle :: string
  bi_intent :: string

datatype FocusNoise = Low | Medium | High

record Profile =
  genre :: string
  era :: string
  vibes :: "string list"
  hook :: string
  focus_noise :: FocusNoise
  bpm :: nat
  energy :: nat
  valence :: nat
  decadeTag :: string
  sonicTag :: string

record MockTrack =
  track_id :: string
  name :: string
  artist :: string
  tags :: "string list"
  profile :: Profile

record OEmbedCache =
  cached_name :: string
  cached_artist :: string
  cached_artwork_url :: "string option"
  embed_title :: string
  cached_at :: nat

text \<open>The query parameters the handler reads; \<open>None\<close> is \<open>searchParams.get\<close>
  returning \<open>null\<close>.\<close>

record Query =
  q_time :: "string option"
  q_tweak :: "string option"
  q_engine :: "string option"
  q_situation :: "string option"

subsection \<open>Reading the request\<close>

text \<open>\<open>parseTimeOverride\<close>: \<open>null\<close> for an absent or empty parameter, otherwise the
  trimmed text is matched against \<open>^([01]\d|2[0-3]):([0-5]\d)$\<close>.\<close>

definition parseTimeOverride :: "string option \<Rightarrow> (nat \<times> nat) option" where
  "parseTimeOverride time =
     (case time of
        None \<Rightarrow> None
      | Some s \<Rightarrow>
          if s = [] then None
          else (case trim s of
                  [h1, h2, c, m1, m2] \<Rightarrow>
                    if ((h1 \<in> set ''01'' \<and> is_digit h2) \<or> (h1 = CHR ''2'' \<and> h2 \<in> set ''0123''))
                       \<and> c = CHR '':'' \<and> m1 \<in> set ''012345'' \<and> is_digit m2
                    then Some (10 * digit_val h1 + digit_val h2, 10 * digit_val m1 + digit_val m2)
                    else None
                | _ \<Rightarrow> None))"

text \<open>\<open>normalizeSituation\<close>: trim, lower-case, then every maximal run of white space
  and hyphens becomes one underscore. The flag of \<open>replace_runs\<close> says that the
  previous character belonged to such a run.\<close>

fun replace_runs :: "bool \<Rightarrow> string \<Rightarrow> string" where
  "replace_runs in_run [] = []"
| "replace_runs in_run (c # cs) =
     (if is_space c \<or> c = CHR ''-''
      then (if in_run then replace_runs True cs else CHR ''_'' # replace_runs True cs)
      else c # replace_runs False cs)"

definition normalizeSituation :: "string \<Rightarrow> string" where
  "normalizeSituation raw = replace_runs False (toLowerCase (trim raw))"

text \<open>The own properties of the object literal \<open>aliasMap\<close>.\<close>

definition aliasMap :: "(string \<times> Situation) list" where
  "aliasMap =
     [(''workout'', working_out), (''workingout'', working_out), (''working_out'', working_out),
      (''work_out'', working_out), (''gym'', working_out), (''exercise'', working_out),
      (''work'', working), (''working'', working), (''office'', working),
      (''study'', studying), (''studying'', studying), (''focus'', studying),
      (''homework'', studying),
      (''party'', party),
      (''dinner'', dinner), (''hangout'', dinner), (''hanging_out'', dinner),
      (''chill'', chill), (''late_night'', chill),
      (''auto'', auto), ('''', auto)]"

text \<open>\<open>aliasMap\<close> is a plain object literal, so \<open>aliasMap[key]\<close> also finds what it
  inherits from \<open>Object.prototype\<close>. Each of these members is a function or an object,
  hence truthy, and \<open>aliasMap[normalized] || "auto"\<close> then yields that member.\<close>

definition object_prototype_keys :: "string list" where
  "object_prototype_keys =
     [''constructor'', ''__proto__'', ''hasOwnProperty'', ''isPrototypeOf'',
      ''propertyIsEnumerable'', ''toLocaleString'', ''toString'', ''valueOf'',
      ''__defineGetter__'', ''__defineSetter__'', ''__lookupGetter__'', ''__lookupSetter__'']"

text \<open>What \<open>resolved\<close> holds at run time: one of the seven situation strings, or an
  inherited member that is no string at all.\<close>

datatype resolved = Known Situation | Inherited

record SituationResult =
  sr_situation :: resolved
  sr_raw :: string
  sr_normalized :: string

definition getSituation :: "string option \<Rightarrow> SituationResult" where
  "getSituation param =
     (let raw = (case param of None \<Rightarrow> [] | Some s \<Rightarrow> s);
          normalized = normalizeSituation raw;
          resolved = (case map_of aliasMap normalized of
                        Some s \<Rightarrow> Known s
                      | None \<Rightarrow> if normalized \<in> set object_prototype_keys then Inherited
                                else Known auto)
      in \<lparr>sr_situation = resolved, sr_raw = raw, sr_normalized = normalized\<rparr>)"

definition getEngine :: "string option \<Rightarrow> EngineMode" where
  "getEngine param =
     (let raw = trim (case param of None \<Rightarrow> [] | Some s \<Rightarrow> s)
      in if raw = ''spotify_ai'' then spotify_ai else my_engine)"

definition getTweak :: "string option \<Rightarrow> Tweak" where
  "getTweak param =
     (let raw = trim (case param of None \<Rightarrow> [] | Some s \<Rightarrow> s)
      in if raw = ''more_new'' then more_new
         else if raw = ''more_familiar'' then more_familiar
         else if raw = ''no_repeats'' then no_repeats
         else none)"

definition getTimeBucketFromMinutes :: "int \<Rightarrow> TimeBucket" where
  "getTimeBucketFromMinutes mins =
     (let MORNING = 7 * 60; MIDDAY = 12 * 60; EVENING = 17 * 60; LATE = 22 * 60; TWO_AM = 2 * 60
      in if mins \<ge> MORNING \<and> mins < MIDDAY then morning
         else if mins \<ge> MIDDAY \<and> mins < EVENING then midday
         else if mins \<ge> EVENING \<and> mins < LATE then evening
         else if mins \<ge> LATE \<or> mins < TWO_AM then late_night
         else late_night)"

definition makeTrackUrl :: "string \<Rightarrow> string" where
  "makeTrackUrl i = ''https://open.spotify.com/track/'' @ i"

subsection \<open>Seed and shuffle\<close>

text \<open>\<open>stableHash\<close>: FNV-1a on 32 bits. \<open>h ^= c\<close> and \<open>Math.imul\<close> work on the
  32-bit pattern of \<open>h\<close>, and \<open>h >>> 0\<close> reads it unsigned.\<close>

definition stableHash :: "string \<Rightarrow> 32 word" where
  "stableHash s = foldl (\<lambda>h c. (h XOR of_nat (of_char c)) * 16777619) 2166136261 s"

text \<open>One call of \<open>rand\<close> inside \<open>seededShuffle\<close> updates \<open>x\<close> by xorshift32.\<close>

definition xorshift32 :: "32 word \<Rightarrow> 32 word" where
  "xorshift32 x =
     (let x1 = x XOR push_bit 13 x;
          x2 = x1 XOR drop_bit 17 x1;
          x3 = x2 XOR push_bit 5 x2
      in x3)"

text \<open>The loop \<open>for (i = a.length - 1; i > 0; i--)\<close>. \<open>rand()\<close> is
  \<open>x / 2^32\<close> and \<open>Math.floor(rand() * (i + 1))\<close> is computed in doubles; both
  steps are exact while \<open>i + 1 \<le> 2^21\<close>, where the product of \<open>x\<close> and \<open>i + 1\<close>
  stays below \<open>2^53\<close>, so the index is the integer quotient below.\<close>

fun shuffle_loop :: "nat \<Rightarrow> 32 word \<Rightarrow> 'a list \<Rightarrow> 'a list" where
  "shuffle_loop 0 x a = a"
| "shuffle_loop (Suc k) x a =
     (let x' = xorshift32 x;
          i = Suc k;
          j = nat ((uint x' * (int i + 1)) div 4294967296)
      in shuffle_loop k x' (a[i := a ! j, j := a ! i]))"

text \<open>The seed is a JavaScript number (\<open>seed + idx * 101\<close> may pass \<open>2^32\<close>);
  \<open>seed >>> 0\<close> reduces it modulo \<open>2^32\<close>.\<close>

definition seededShuffle :: "'a list \<Rightarrow> int \<Rightarrow> 'a list" where
  "seededShuffle arr seed = shuffle_loop (length arr - 1) (word_of_int seed) arr"

subsection \<open>Block plans\<close>

definition mk :: "string \<Rightarrow> string \<Rightarrow> string \<Rightarrow> BlockIntent" where
  "mk t s i = \<lparr>bi_title = t, bi_subtitle = s, bi_intent = i\<rparr>"

text \<open>\<open>SITUATION_PRESETS\<close> has no entry for \<open>auto\<close>.\<close>

fun SITUATION_PRESETS :: "Situation \<Rightarrow> BlockIntent list option" where
  "SITUATION_PRESETS working_out = Some
     [mk ''Warm up'' ''Ease into movement without rushing'' ''ramp'',
      mk ''PR mode'' ''Peak intensity for max effort'' ''energy'',
      mk ''Keep moving'' ''Steady tempo to maintain momentum'' ''throwback'',
      mk ''Second wind'' ''Fresh energy when you start to fade'' ''discovery'',
      mk ''Cool down'' ''Bring the intensity back down gradually'' ''reset'']"
| "SITUATION_PRESETS working = Some
     [mk ''Deep focus'' ''Low distraction for sustained concentration'' ''focus'',
      mk ''Low distraction'' ''Steady, unobtrusive background energy'' ''focus'',
      mk ''Steady tempo'' ''Consistent rhythm to keep you grounded'' ''ramp'',
      mk ''No lyrics bias'' ''Instrumental or minimal vocals'' ''focus'',
      mk ''Short reset'' ''Brief mental break without losing flow'' ''reset'']"
| "SITUATION_PRESETS studying = Some
     [mk ''Deep focus'' ''Low distraction for sustained concentration'' ''focus'',
      mk ''Low distraction'' ''Steady, unobtrusive background energy'' ''focus'',
      mk ''Steady tempo'' ''Consistent rhythm to keep you grounded'' ''ramp'',
      mk ''No lyrics bias'' ''Instrumental or minimal vocals'' ''focus'',
      mk ''Short reset'' ''Brief mental break without losing flow'' ''reset'']"
| "SITUATION_PRESETS dinner = Some
     [mk ''Dinner table'' ''Conversational, warm background music'' ''reset'',
      mk ''Background glow'' ''Soft energy that fills the space'' ''throwback'',
      mk ''Conversation friendly'' ''Won't compete with voices'' ''reset'',
      mk ''Soft classics'' ''Familiar, comforting picks'' ''throwback'',
      mk ''After dinner'' ''Easy transition to relaxation'' ''discovery'']"
| "SITUATION_PRESETS party = Some
     [mk ''Kickoff'' ''Set the tone with immediate energy'' ''energy'',
      mk ''Hands up'' ''Peak moments that move the room'' ''energy'',
      mk ''Peak hour'' ''Maximum intensity for the main event'' ''ramp'',
      mk ''Afterparty'' ''Keep the vibe going without peaking again'' ''throwback'',
      mk ''Come down'' ''Ease the energy back down'' ''reset'']"
| "SITUATION_PRESETS chill = Some
     [mk ''Slow lane'' ''Low-key energy to help you settle'' ''reset'',
      mk ''Late afternoon haze'' ''Warm, drifting sounds'' ''throwback'',
      mk ''Soft edges'' ''Gentle textures, no hard hits'' ''focus'',
      mk ''Window seat'' ''Contemplative, introspective mood'' ''discovery'',
      mk ''Quiet win'' ''Calm satisfaction, no pressure'' ''reset'']"
| "SITUATION_PRESETS auto = None"

text \<open>\<open>blockPlan\<close>: \<open>SITUATION_PRESETS[situation] || []\<close> for a situation other
  than \<open>auto\<close>, the time-based lists otherwise.\<close>

definition blockPlan :: "TimeBucket \<Rightarrow> Situation \<Rightarrow> BlockIntent list" where
  "blockPlan bucket situation =
     (if situation \<noteq> auto
      then (case SITUATION_PRESETS situation of Some plan \<Rightarrow> plan | None \<Rightarrow> [])
      else if bucket = morning then
        [mk ''If you want momentum'' ''Start your day with energy'' ''energy'',
         mk ''If you need a smooth start'' ''Ease into your morning'' ''ramp'',
         mk ''If you want deep focus'' ''Lock in early'' ''focus'',
         mk ''If you want something different'' ''Fresh angle for morning'' ''discovery'']
      else if bucket = midday then
        [mk ''If you want deep focus'' ''Steady tracks for midday work'' ''focus'',
         mk ''If you need a mental reset'' ''Clear your head'' ''reset'',
         mk ''If you need a push'' ''Lift your energy'' ''energy'',
         mk ''If you want something different'' ''Fresh picks for afternoon'' ''discovery'']
      else if bucket = evening then
        [mk ''If you want to unwind'' ''Shift down from your day'' ''reset'',
         mk ''If you want light focus'' ''Evening concentration'' ''focus'',
         mk ''If you want to move'' ''Gentle evening energy'' ''ramp'',
         mk ''If you want something different'' ''Fresh sounds for evening'' ''discovery'']
      else
        [mk ''If you want sustained energy'' ''Stay awake and alert'' ''energy'',
         mk ''If you want to stay sharp'' ''Late-night focus'' ''focus'',
         mk ''If you want something familiar'' ''Known tracks for tired moments'' ''throwback'',
         mk ''If you want to wind down'' ''Ease into calmer energy'' ''reset''])"

fun bucketNames :: "TimeBucket \<Rightarrow> string" where
  "bucketNames morning = ''Morning''"
| "bucketNames midday = ''Midday''"
| "bucketNames evening = ''Evening''"
| "bucketNames late_night = ''Late night''"

fun situationContexts :: "TimeBucket \<Rightarrow> Situation \<Rightarrow> string" where
  "situationContexts b working_out = bucketNames b @ '' + workout: energy that scales with your effort.''"
| "situationContexts b working = bucketNames b @ '' + work: keep energy up, distraction low.''"
| "situationContexts b studying = bucketNames b @ '' + study: keep energy up, distraction low.''"
| "situationContexts b dinner =
     bucketNames b @ '' + dinner: background warmth without competing with conversation.''"
| "situationContexts b party = bucketNames b @ '' + party: peak energy to move the room.''"
| "situationContexts b chill = bucketNames b @ '' + chill: ease into low-key, contemplative mood.''"
| "situationContexts b auto = []"

fun bucketDescriptions :: "TimeBucket \<Rightarrow> string" where
  "bucketDescriptions morning = ''Morning: easing into the day with controlled energy.''"
| "bucketDescriptions midday = ''Midday: maintaining focus and momentum.''"
| "bucketDescriptions evening = ''Evening: transitioning to lower-pressure mode.''"
| "bucketDescriptions late_night = ''Late night: staying alert or winding down on your terms.''"

definition blockWhyNow :: "TimeBucket \<Rightarrow> Situation \<Rightarrow> string" where
  "blockWhyNow bucket situation =
     (if situation \<noteq> auto then situationContexts bucket situation else bucketDescriptions bucket)"

subsection \<open>The catalog\<close>

definition MOCK_TRACKS :: "MockTrack list" where
  "MOCK_TRACKS = [
    \<lparr>track_id = ''0q6LuUqGLUiCPP1cbdwFs3'', name = ''On Melancholy Hill'', artist = ''Gorillaz'',
      tags = [''focus'', ''throwback''],
      profile = \<lparr>genre = ''alt pop'', era = ''late 2000s'', vibes = [''clean'', ''melodic'', ''bright''],
        hook = ''clean melodic groove'', focus_noise = Low, bpm = 118, energy = 55,
        valence = 60, decadeTag = ''2000s'', sonicTag = ''bright synths''\<rparr>\<rparr>,
    \<lparr>track_id = ''7w87IxuO7BDcJ3YUqCyMTT'', name = ''Pumped Up Kicks'', artist = ''Foster The People'',
      tags = [''reset'', ''throwback''],
      profile = \<lparr>genre = ''indie pop'', era = ''early 2010s'', vibes = [''catchy'', ''nostalgic'', ''smooth''],
        hook = ''whistled melody'', focus_noise = Low, bpm = 128, energy = 62,
        valence = 58, decadeTag = ''2010s'', sonicTag = ''whistled hook''\<rparr>\<rparr>,
    \<lparr>track_id = ''60ZGteAEtPCnGE6zevgUcd'', name = ''Mountain Sound'', artist = ''Of Monsters and Men'',
      tags = [''reset'', ''focus''],
      profile = \<lparr>genre = ''indie folk'', era = ''early 2010s'', vibes = [''bright'', ''organic'', ''warm''],
        hook = ''anthemic stomp'', focus_noise = Medium, bpm = 132, energy = 70,
        valence = 72, decadeTag = ''2010s'', sonicTag = ''stomping drums''\<rparr>\<rparr>,
    \<lparr>track_id = ''2ihCaVdNZmnHZWt0fvAM7B'', name = ''Little Talks'', artist = ''Of Monsters and Men'',
      tags = [''energy'', ''throwback''],
      profile = \<lparr>genre = ''indie folk'', era = ''early 2010s'', vibes = [''anthemic'', ''sing-along'', ''uplifting''],
        hook = ''call-and-response vocals'', focus_noise = High, bpm = 108, energy = 78,
        valence = 65, decadeTag = ''2010s'', sonicTag = ''brass accents''\<rparr>\<rparr>,
    \<lparr>track_id = ''6K4t31amVTZDgR3sKmwUJJ'', name = ''Bloom'', artist = ''The Paper Kites'',
      tags = [''focus'', ''reset''],
      profile = \<lparr>genre = ''indie folk'', era = ''early 2010s'', vibes = [''delicate'', ''gentle'', ''warm''],
        hook = ''fingerpicked guitar'', focus_noise = Low, bpm = 92, energy = 35,
        valence = 55, decadeTag = ''2010s'', sonicTag = ''fingerpicked guitar''\<rparr>\<rparr>,
    \<lparr>track_id = ''09019ss66clxe59SgrUD7j'', name = ''Budapest'', artist = ''George Ezra'',
      tags = [''reset''],
      profile = \<lparr>genre = ''indie folk'', era = ''mid 2010s'', vibes = [''warm'', ''soulful'', ''easygoing''],
        hook = ''deep baritone vocals'', focus_noise = Low, bpm = 128, energy = 58,
        valence = 68, decadeTag = ''2010s'', sonicTag = ''warm guitar''\<rparr>\<rparr>,
    \<lparr>track_id = ''5Hroj5K7vLpIG4FNCRIjbP'', name = ''Best Day Of My Life'', artist = ''American Authors'',
      tags = [''energy'', ''throwback''],
      profile = \<lparr>genre = ''indie pop'', era = ''early 2010s'', vibes = [''joyful'', ''anthemic'', ''upbeat''],
        hook = ''hand-clap beat'', focus_noise = Medium, bpm = 92, energy = 82,
        valence = 88, decadeTag = ''2010s'', sonicTag = ''hand claps''\<rparr>\<rparr>,
    \<lparr>track_id = ''6PwjJ58I4t7Mae9xfZ9l9v'', name = ''Somebody Told Me'', artist = ''The Killers'',
      tags = [''energy'', ''ramp''],
      profile = \<lparr>genre = ''indie rock'', era = ''mid 2000s'', vibes = [''driving'', ''punchy'', ''tight''],
        hook = ''synth bassline'', focus_noise = Medium, bpm = 140, energy = 85,
        valence = 60, decadeTag = ''2000s'', sonicTag = ''synth bass''\<rparr>\<rparr>,
    \<lparr>track_id = ''3AJwUDP919kvQ9QcozQPxg'', name = ''Mr. Brightside'', artist = ''The Killers'',
      tags = [''energy'', ''throwback''],
      profile = \<lparr>genre = ''indie rock'', era = ''mid 2000s'', vibes = [''anthemic'', ''driving'', ''classic''],
        hook = ''guitar surge'', focus_noise = Medium, bpm = 148, energy = 88,
        valence = 55, decadeTag = ''2000s'', sonicTag = ''guitar surge''\<rparr>\<rparr>,
    \<lparr>track_id = ''3FtYbEfBqAlGO46NUDQSAt'', name = ''Electric Feel'', artist = ''MGMT'',
      tags = [''ramp'', ''throwback''],
      profile = \<lparr>genre = ''psychedelic pop'', era = ''late 2000s'', vibes = [''groovy'', ''colorful'', ''playful''],
        hook = ''funky bassline'', focus_noise = Medium, bpm = 108, energy = 72,
        valence = 75, decadeTag = ''2000s'', sonicTag = ''funky bass''\<rparr>\<rparr>,
    \<lparr>track_id = ''1jJci4qxiYcOHhQR247rEU'', name = ''Kids'', artist = ''MGMT'',
      tags = [''energy'', ''throwback''],
      profile = \<lparr>genre = ''psychedelic pop'', era = ''late 2000s'', vibes = [''nostalgic'', ''synth-heavy'', ''anthemic''],
        hook = ''synth lead melody'', focus_noise = Medium, bpm = 124, energy = 80,
        valence = 68, decadeTag = ''2010s'', sonicTag = ''synth lead''\<rparr>\<rparr>,
    \<lparr>track_id = ''6Z8R6UsFuGXGtiIxiD8ISb'', name = ''Safe and Sound'', artist = ''Capital Cities'',
      tags = [''energy'', ''ramp''],
      profile = \<lparr>genre = ''indie pop'', era = ''early 2010s'', vibes = [''bright'', ''feel-good'', ''catchy''],
        hook = ''horn stabs'', focus_noise = Medium, bpm = 108, energy = 76,
        valence = 82, decadeTag = ''2010s'', sonicTag = ''brass hits''\<rparr>\<rparr>,
    \<lparr>track_id = ''1eyzqe2QqGZUmfcPZtrIyt'', name = ''Midnight City'', artist = ''M83'',
      tags = [''energy'', ''ramp''],
      profile = \<lparr>genre = ''synth pop'', era = ''early 2010s'', vibes = [''epic'', ''shimmering'', ''driving''],
        hook = ''saxophone solo'', focus_noise = Medium, bpm = 105, energy = 82,
        valence = 68, decadeTag = ''2010s'', sonicTag = ''synth epic''\<rparr>\<rparr>,
    \<lparr>track_id = ''0GO8y8jQk1PkHzS31d699N'', name = ''Tongue Tied'', artist = ''Grouplove'',
      tags = [''energy'', ''ramp''],
      profile = \<lparr>genre = ''indie rock'', era = ''early 2010s'', vibes = [''chaotic'', ''fun'', ''raw''],
        hook = ''shout-along chorus'', focus_noise = High, bpm = 112, energy = 86,
        valence = 78, decadeTag = ''2010s'', sonicTag = ''shouted vocals''\<rparr>\<rparr>,
    \<lparr>track_id = ''01iyCAUm8EvOFqVWYJ3dVX'', name = ''Take a Walk'', artist = ''Passion Pit'',
      tags = [''energy'', ''ramp''],
      profile = \<lparr>genre = ''indie pop'', era = ''early 2010s'', vibes = [''bright'', ''layered'', ''urgent''],
        hook = ''cascading synths'', focus_noise = Medium, bpm = 128, energy = 80,
        valence = 58, decadeTag = ''2010s'', sonicTag = ''layered synths''\<rparr>\<rparr>,
    \<lparr>track_id = ''4prEPl61C8qZpeo3IkYSMl'', name = ''Sleepyhead'', artist = ''Passion Pit'',
      tags = [''energy''],
      profile = \<lparr>genre = ''indie pop'', era = ''late 2000s'', vibes = [''glitchy'', ''bouncy'', ''frenetic''],
        hook = ''chopped vocal sample'', focus_noise = High, bpm = 130, energy = 84,
        valence = 65, decadeTag = ''2000s'', sonicTag = ''vocal chop''\<rparr>\<rparr>,
    \<lparr>track_id = ''0DwClY2t9YAWHBROMIgrXb'', name = ''Ho Hey'', artist = ''The Lumineers'',
      tags = [''reset'', ''throwback''],
      profile = \<lparr>genre = ''indie folk'', era = ''early 2010s'', vibes = [''warm'', ''simple'', ''organic''],
        hook = ''stomp-clap rhythm'', focus_noise = Low, bpm = 82, energy = 68,
        valence = 75, decadeTag = ''2010s'', sonicTag = ''foot stomps''\<rparr>\<rparr>,
    \<lparr>track_id = ''14AyWf6y7KlWWLfAjdKMKI'', name = ''Ophelia'', artist = ''The Lumineers'',
      tags = [''reset''],
      profile = \<lparr>genre = ''indie folk'', era = ''mid 2010s'', vibes = [''anthemic'', ''organic'', ''uplifting''],
        hook = ''stomping beat'', focus_noise = Medium, bpm = 96, energy = 70,
        valence = 68, decadeTag = ''2010s'', sonicTag = ''stomping rhythm''\<rparr>\<rparr>,
    \<lparr>track_id = ''2QjOHCTQ1Jl3zawyYOpxh6'', name = ''Sweater Weather'', artist = ''The Neighbourhood'',
      tags = [''focus'', ''evening''],
      profile = \<lparr>genre = ''alt rock'', era = ''early 2010s'', vibes = [''moody'', ''dreamy'', ''smooth''],
        hook = ''reverb guitar line'', focus_noise = Low, bpm = 90, energy = 48,
        valence = 52, decadeTag = ''2010s'', sonicTag = ''reverb guitar''\<rparr>\<rparr>,
    \<lparr>track_id = ''1YLJVmuzeM2YSUkCCaTNUB'', name = ''Dog Days Are Over'', artist = ''Florence + The Machine'',
      tags = [''energy''],
      profile = \<lparr>genre = ''indie rock'', era = ''late 2000s'', vibes = [''powerful'', ''triumphant'', ''raw''],
        hook = ''explosive harp crescendo'', focus_noise = High, bpm = 146, energy = 92,
        valence = 62, decadeTag = ''2000s'', sonicTag = ''harp glissando''\<rparr>\<rparr>,
    \<lparr>track_id = ''4dyx5SzxPPaD8xQIid5Wjj'', name = ''Young Folks'', artist = ''Peter Bjorn and John'',
      tags = [''focus'', ''throwback''],
      profile = \<lparr>genre = ''indie pop'', era = ''mid 2000s'', vibes = [''playful'', ''bright'', ''whistled''],
        hook = ''iconic whistle riff'', focus_noise = Low, bpm = 110, energy = 60,
        valence = 70, decadeTag = ''2010s'', sonicTag = ''whistle melody''\<rparr>\<rparr>,
    \<lparr>track_id = ''4kbj5MwxO1bq9wjT5g9HaA'', name = ''Shut Up and Dance'', artist = ''WALK THE MOON'',
      tags = [''energy'', ''ramp''],
      profile = \<lparr>genre = ''indie pop'', era = ''mid 2010s'', vibes = [''upbeat'', ''funky'', ''danceable''],
        hook = ''driving bass groove'', focus_noise = High, bpm = 128, energy = 89,
        valence = 85, decadeTag = ''2010s'', sonicTag = ''funky bass''\<rparr>\<rparr>,
    \<lparr>track_id = ''3e0yTP5trHBBVvV32jwXqF'', name = ''Anna Sun'', artist = ''WALK THE MOON'',
      tags = [''energy'', ''ramp''],
      profile = \<lparr>genre = ''indie rock'', era = ''early 2010s'', vibes = [''raw'', ''explosive'', ''anthemic''],
        hook = ''shouted vocals'', focus_noise = High, bpm = 116, energy = 87,
        valence = 72, decadeTag = ''2010s'', sonicTag = ''raw vocals''\<rparr>\<rparr>,
    \<lparr>track_id = ''1UqhkbzB1kuFwt2iy4h29Q'', name = ''Cough Syrup'', artist = ''Young the Giant'',
      tags = [''reset'', ''focus''],
      profile = \<lparr>genre = ''indie rock'', era = ''early 2010s'', vibes = [''building'', ''emotional'', ''anthemic''],
        hook = ''soaring chorus'', focus_noise = Medium, bpm = 128, energy = 74,
        valence = 55, decadeTag = ''2010s'', sonicTag = ''building guitar''\<rparr>\<rparr>]"

subsection \<open>Reasons and labels\<close>

definition generateFeatureBasedReason :: "MockTrack \<Rightarrow> string \<Rightarrow> string" where
  "generateFeatureBasedReason track blockTitle =
     (let b = bpm (profile track); e = energy (profile track); v = valence (profile track);
          tag = sonicTag (profile track);
          energyLevel = (if e > 75 then ''high-energy'' else if e > 55 then ''mid-tempo'' else ''low-key'');
          mood = (if v > 70 then ''upbeat'' else if v > 50 then ''mid valence'' else ''mellower mood'')
      in if js_includes blockTitle ''PR mode'' \<or> js_includes blockTitle ''Hands up''
            \<or> js_includes blockTitle ''Peak''
         then string_of_nat b @ '' bpm with '' @ tag @ ''. '' @ capitalize energyLevel
              @ '' without going full EDM.''
         else if js_includes blockTitle ''focus'' \<or> js_includes blockTitle ''Deep focus''
                 \<or> js_includes blockTitle ''Low distraction''
         then (let lyricNote = (if focus_noise (profile track) = Low then ''Low lyric density''
                                else ''Steady presence'')
               in lyricNote @ '', '' @ string_of_nat b @ '' bpm. Study-safe.'')
         else if js_includes blockTitle ''Dinner'' \<or> js_includes blockTitle ''Background''
                 \<or> js_includes blockTitle ''Conversation''
         then capitalize tag @ '' + '' @ mood @ ''. Dinner table friendly.''
         else if js_includes blockTitle ''Warm up'' \<or> js_includes blockTitle ''Cool down''
                 \<or> js_includes blockTitle ''reset''
         then string_of_nat b @ '' bpm, '' @ energyLevel @ ''. '' @ capitalize mood
              @ '' to shift gears.''
         else string_of_nat b @ '' bpm with '' @ tag @ ''. '' @ capitalize energyLevel @ '', ''
              @ mood @ ''.'')"

definition signalMap :: "(string \<times> string) list" where
  "signalMap =
     [(''focus'', ''Low distraction''), (''reset'', ''Mood reset''), (''energy'', ''Energy fit''),
      (''ramp'', ''Energy fit''), (''throwback'', ''Familiar anchor''),
      (''discovery'', ''Fresh angle'')]"

text \<open>\<open>getReasonSignal\<close> is only called with the intent of a plan entry, which is
  always a key of \<open>signalMap\<close>.\<close>

definition getReasonSignal :: "string \<Rightarrow> string" where
  "getReasonSignal intent =
     (case map_of signalMap intent of Some s \<Rightarrow> s | None \<Rightarrow> ''Fresh angle'')"

definition spotifyAiSubtitle :: "TimeBucket \<Rightarrow> string" where
  "spotifyAiSubtitle bucket =
     (if bucket = morning then ''Upbeat mix for your day''
      else if bucket = midday then ''A blend for your routine''
      else if bucket = evening then ''Chill picks you might like''
      else ''Late night vibes'')"

definition spotifyAiWhyNow :: "TimeBucket \<Rightarrow> string" where
  "spotifyAiWhyNow bucket =
     (if bucket = morning then ''Picked based on your listening habits.''
      else if bucket = midday then ''A mix based on your recent activity.''
      else if bucket = evening then ''Selected for your typical evening listening.''
      else ''Recommended from your taste profile.'')"

subsection \<open>Scoring\<close>

definition scoreTrack :: "MockTrack \<Rightarrow> string \<Rightarrow> Tweak \<Rightarrow> rat" where
  "scoreTrack t intent tweak =
     (let score = 0;
          score = (if intent \<in> set (tags t) then score + 6 else score);
          score = (if intent = ''discovery'' then score + 1 else score);
          score = (if tweak = more_new
                   then score + (if ''throwback'' \<in> set (tags t) then - 2 else 2)
                   else if tweak = more_familiar
                   then score + (if ''throwback'' \<in> set (tags t) then 3 else 0)
                   else score)
      in score)"

fun SITUATION_BIAS :: "Situation \<Rightarrow> (string \<times> rat) list" where
  "SITUATION_BIAS auto = []"
| "SITUATION_BIAS working_out = [(''energy'', 3), (''ramp'', 2), (''reset'', 1), (''throwback'', 1)]"
| "SITUATION_BIAS working = [(''focus'', 3), (''ramp'', 1), (''reset'', - 2)]"
| "SITUATION_BIAS studying = [(''focus'', 3), (''ramp'', 1), (''reset'', - 2)]"
| "SITUATION_BIAS dinner = [(''reset'', 3), (''throwback'', 1), (''focus'', - 1)]"
| "SITUATION_BIAS party = [(''energy'', 3), (''ramp'', 2), (''throwback'', 1), (''reset'', - 2)]"
| "SITUATION_BIAS chill = [(''reset'', 3), (''focus'', 1), (''throwback'', 1), (''energy'', - 2)]"

text \<open>\<open>situationBias[tag] || 0\<close>. A tag that only names an inherited member of the
  table object gives a non-number, which fails \<open>intentBoost > 0\<close> just as 0 does.\<close>

definition intentBoost :: "Situation \<Rightarrow> string \<Rightarrow> rat" where
  "intentBoost situation tag =
     (case map_of (SITUATION_BIAS situation) tag of Some w \<Rightarrow> w | None \<Rightarrow> 0)"

definition scoreIntent :: "string \<Rightarrow> Situation \<Rightarrow> rat" where
  "scoreIntent intent situation = (if situation = auto then 0 else intentBoost situation intent)"

text \<open>The body of the \<open>.map\<close> callback in \<open>pickTracksForIntent\<close>: the score that
  orders the shuffled catalog.\<close>

definition trackScore ::
  "MockTrack \<Rightarrow> string \<Rightarrow> Tweak \<Rightarrow> Situation \<Rightarrow> nat \<Rightarrow> string set \<Rightarrow> rat" where
  "trackScore t intent tweak situation blockIndex globalSeen =
     (let score = scoreTrack t intent tweak;
          score = (if track_id t \<in> globalSeen
                   then (if blockIndex < 3 then score - 1000 else score - 5)
                   else score)
      in if situation \<noteq> auto then
           (let score = foldl (\<lambda>sc tag. if intentBoost situation tag > 0
                                         then sc + intentBoost situation tag * (1 / 2) else sc)
                              score (tags t);
                p = profile t;
                score = (if situation = studying then
                           (let s1 = (if focus_noise p = Low then score + 2 else score);
                                s2 = (if focus_noise p = High then s1 - 2 else s1);
                                s3 = (if valence p < 40 then s2 + 1 else s2);
                                s4 = (if bpm p < 90 then s3 + 1 else s3)
                            in s4)
                         else score);
                score = (if situation = working_out then
                           (let s1 = (if energy p < 70 then score - 1 else score);
                                s2 = (if bpm p < 110 then s1 - 1 else s1);
                                s3 = (if valence p < 50 then s2 - 1 else s2)
                            in s3)
                         else score);
                score = (if situation = party then
                           (let s1 = (if energy p < 80 then score - 1 else score);
                                s2 = (if bpm p < 120 then s1 - 1 else s1);
                                s3 = (if valence p < 60 then s2 - 1 else s2)
                            in s3)
                         else score);
                score = (if situation = dinner then
                           (let s1 = (if energy p > 60 then score - 1 else score);
                                s2 = (if bpm p > 110 then s1 - 1 else s1);
                                s3 = (if valence p < 50 then s2 - 1 else s2)
                            in s3)
                         else score);
                score = (if situation = chill then
                           (let s1 = (if energy p > 60 then score - 1 else score);
                                s2 = (if bpm p > 100 then s1 - 1 else s1)
                            in s2)
                         else score)
            in score)
         else score)"

subsection \<open>Selection\<close>

text \<open>The first loop of \<open>pickTracksForIntent\<close> over \<open>ordered\<close>; the state is
  \<open>picked\<close>, \<open>seen\<close> and \<open>globalSeen\<close>.\<close>

fun pickLoop ::
  "Tweak \<Rightarrow> MockTrack list \<Rightarrow> MockTrack list \<times> string set \<times> string set
     \<Rightarrow> MockTrack list \<times> string set \<times> string set" where
  "pickLoop tweak [] st = st"
| "pickLoop tweak (t # ts) (picked, seen, globalSeen) =
     (if length picked \<ge> 5 then (picked, seen, globalSeen)
      else if tweak = no_repeats \<and> track_id t \<in> seen then pickLoop tweak ts (picked, seen, globalSeen)
      else pickLoop tweak ts
             (picked @ [t], insert (track_id t) seen, insert (track_id t) globalSeen))"

text \<open>The fallback loop: it skips what the block already holds and does not touch
  \<open>seen\<close>.\<close>

fun fillLoop ::
  "MockTrack list \<Rightarrow> MockTrack list \<times> string set \<Rightarrow> MockTrack list \<times> string set" where
  "fillLoop [] st = st"
| "fillLoop (t # ts) (picked, globalSeen) =
     (if length picked \<ge> 5 then (picked, globalSeen)
      else if list_ex (\<lambda>p. track_id p = track_id t) picked then fillLoop ts (picked, globalSeen)
      else fillLoop ts (picked @ [t], insert (track_id t) globalSeen))"

text \<open>\<open>ordered\<close>: shuffle, score, stable sort by descending score.\<close>

definition ordered ::
  "MockTrack list \<Rightarrow> string \<Rightarrow> Tweak \<Rightarrow> int \<Rightarrow> Situation \<Rightarrow> nat \<Rightarrow> string set
     \<Rightarrow> (MockTrack \<times> rat) list" where
  "ordered catalog intent tweak seed situation blockIndex globalSeen =
     sort_key (\<lambda>x. - snd x)
       (map (\<lambda>t. (t, trackScore t intent tweak situation blockIndex globalSeen))
            (seededShuffle catalog seed))"

text \<open>\<open>pickTracksForIntent\<close>, with the module constant \<open>MOCK_TRACKS\<close> passed as
  \<open>catalog\<close>; it returns the picked tracks and the two sets as it leaves them.\<close>

definition pickTracksForIntent ::
  "MockTrack list \<Rightarrow> string \<Rightarrow> Tweak \<Rightarrow> int \<Rightarrow> string set \<Rightarrow> Situation \<Rightarrow> nat \<Rightarrow> string set
     \<Rightarrow> MockTrack list \<times> string set \<times> string set" where
  "pickTracksForIntent catalog intent tweak seed seen situation blockIndex globalSeen =
     (let ord = map fst (ordered catalog intent tweak seed situation blockIndex globalSeen);
          (picked, seen1, globalSeen1) = pickLoop tweak ord ([], seen, globalSeen)
      in if length picked < 5
         then (let (picked2, globalSeen2) = fillLoop ord (picked, globalSeen1)
               in (picked2, seen1, globalSeen2))
         else (picked, seen1, globalSeen1))"

subsection \<open>Building the blocks\<close>

text \<open>The first \<open>plan.map\<close> of \<open>buildBlocksWithArtwork\<close>: the blocks are picked in
  order, each call seeing the sets as the previous one left them.\<close>

fun pickBlocks ::
  "MockTrack list \<Rightarrow> Tweak \<Rightarrow> int \<Rightarrow> Situation \<Rightarrow> nat \<Rightarrow> string set \<Rightarrow> string set
     \<Rightarrow> BlockIntent list \<Rightarrow> (BlockIntent \<times> nat \<times> MockTrack list) list" where
  "pickBlocks catalog tweak seed situation idx seen globalSeen [] = []"
| "pickBlocks catalog tweak seed situation idx seen globalSeen (p # ps) =
     (let blockSeed = seed + int idx * 101;
          (picked, seen', globalSeen') =
             pickTracksForIntent catalog (bi_intent p) tweak blockSeed seen situation idx globalSeen
      in (p, idx, picked) # pickBlocks catalog tweak seed situation (Suc idx) seen' globalSeen' ps)"

text \<open>\<open>canonical?.name || t.name\<close> and its siblings: the cached value when there is
  one and it is not the empty string.\<close>

definition or_else :: "string option \<Rightarrow> string \<Rightarrow> string" where
  "or_else v d = (case v of None \<Rightarrow> d | Some s \<Rightarrow> if s = [] then d else s)"

definition genericTitle :: "nat \<Rightarrow> string" where
  "genericTitle idx =
     (if idx = 0 then ''Made for You''
      else if idx = 1 then ''Daily Mix''
      else if idx = 2 then ''Vibes''
      else if idx = 3 then ''Recommended''
      else ''More Like This'')"

text \<open>The final \<open>blocks.map\<close>. \<open>oembedCache\<close> is the cache as the awaited lookups
  left it; what the network returned is not part of the model.\<close>

definition finishBlock ::
  "(string \<rightharpoonup> OEmbedCache) \<Rightarrow> TimeBucket \<Rightarrow> EngineMode \<Rightarrow> Situation
     \<Rightarrow> BlockIntent \<times> nat \<times> MockTrack list \<Rightarrow> Block" where
  "finishBlock oembedCache bucket engine situation b =
     (case b of (p, idx, picked) \<Rightarrow>
        (let trs = map (\<lambda>t.
                (let trackUrl = makeTrackUrl (track_id t);
                     canonical = oembedCache trackUrl
                 in \<lparr>tr_id = track_id t,
                     tr_name = or_else (map_option cached_name canonical) (name t),
                     tr_artist = or_else (map_option cached_artist canonical) (artist t),
                     reason = (if engine = spotify_ai then [] else generateFeatureBasedReason t (bi_title p)),
                     reason_signal = (if engine = spotify_ai then None else Some (getReasonSignal (bi_intent p))),
                     track_url = trackUrl,
                     artwork_url = (case canonical of None \<Rightarrow> None
                                    | Some c \<Rightarrow> (case cached_artwork_url c of None \<Rightarrow> None
                                                 | Some u \<Rightarrow> if u = [] then None else Some u))\<rparr>)) picked
         in if engine = spotify_ai
            then \<lparr>block_id = ''block-'' @ string_of_nat idx,
                  block_title = genericTitle idx,
                  block_subtitle = (if bi_subtitle p \<noteq> [] then bi_subtitle p else spotifyAiSubtitle bucket),
                  why_now = spotifyAiWhyNow bucket,
                  tracks = trs\<rparr>
            else \<lparr>block_id = ''block-'' @ string_of_nat idx,
                  block_title = bi_title p,
                  block_subtitle = bi_subtitle p,
                  why_now = blockWhyNow bucket situation,
                  tracks = trs\<rparr>))"

definition buildBlocksWithArtwork ::
  "MockTrack list \<Rightarrow> (string \<rightharpoonup> OEmbedCache) \<Rightarrow> TimeBucket \<Rightarrow> Tweak \<Rightarrow> EngineMode \<Rightarrow> int
     \<Rightarrow> Situation \<Rightarrow> Block list" where
  "buildBlocksWithArtwork catalog oembedCache bucket tweak engine seed situation =
     (let plan = blockPlan bucket situation;
          blocks = pickBlocks catalog tweak seed situation 0 {} {} plan
      in map (finishBlock oembedCache bucket engine situation) blocks)"

subsection \<open>The handler\<close>

definition seedKey ::
  "TimeBucket \<Rightarrow> Tweak \<Rightarrow> EngineMode \<Rightarrow> Situation \<Rightarrow> (nat \<times> nat) option \<Rightarrow> string" where
  "seedKey timeBucket tweak engine situation override =
     bucket_name timeBucket @ ''|'' @ tweak_name tweak @ ''|'' @ engine_name engine @ ''|''
     @ situation_name situation @ ''|''
     @ (case override of
          Some (hours, minutes) \<Rightarrow> string_of_nat hours @ '':'' @ string_of_nat minutes
        | None \<Rightarrow> ''now'')"

text \<open>The minute of the day the handler classifies: the override, or the clock's
  Chicago minute \<open>nowMinutes\<close> (\<open>getChicagoMinutesNow(now)\<close>).\<close>

definition chicagoMinutes :: "nat \<Rightarrow> Query \<Rightarrow> nat" where
  "chicagoMinutes nowMinutes q =
     (case parseTimeOverride (q_time q) of
        Some (hours, minutes) \<Rightarrow> hours * 60 + minutes
      | None \<Rightarrow> nowMinutes)"

definition requestSeed :: "nat \<Rightarrow> Query \<Rightarrow> Situation \<Rightarrow> 32 word" where
  "requestSeed nowMinutes q situation =
     stableHash (seedKey (getTimeBucketFromMinutes (int (chicagoMinutes nowMinutes q)))
                         (getTweak (q_tweak q)) (getEngine (q_engine q)) situation
                         (parseTimeOverride (q_time q)))"

text \<open>The \<open>blocks\<close> field of the response of \<open>GET\<close>, over the module's
  catalog. When \<open>getSituation\<close> yields an inherited member, \<open>blockPlan\<close> finds
  \<open>situation !== "auto"\<close> true and \<open>SITUATION_PRESETS[situation]\<close> undefined, so
  the plan is \<open>[]\<close> and no block is built.\<close>

definition GET_blocks :: "(string \<rightharpoonup> OEmbedCache) \<Rightarrow> nat \<Rightarrow> Query \<Rightarrow> Block list" where
  "GET_blocks oembedCache nowMinutes q =
     (let tweak = getTweak (q_tweak q);
          engine = getEngine (q_engine q);
          situationResult = getSituation (q_situation q);
          timeBucket = getTimeBucketFromMinutes (int (chicagoMinutes nowMinutes q))
      in case sr_situation situationResult of
           Inherited \<Rightarrow> []
         | Known situation \<Rightarrow>
             buildBlocksWithArtwork MOCK_TRACKS oembedCache timeBucket tweak engine
               (uint (requestSeed nowMinutes q situation)) situation)"

subsection \<open>Notions the properties are stated with\<close>

text \<open>What two responses are compared on: per block, the track ids in order, each with
  its reason.\<close>

definition block_picks :: "Block list \<Rightarrow> (string \<times> string) list list" where
  "block_picks blocks = map (\<lambda>b. map (\<lambda>t. (tr_id t, reason t)) (tracks b)) blocks"

text \<open>The titles \<open>buildBlocksWithArtwork\<close> uses for \<open>spotify_ai\<close>, and every title
  that occurs in a block plan.\<close>

definition genericTitles :: "string list" where
  "genericTitles = map genericTitle [0, 1, 2, 3, 4]"

definition planTitles :: "string list" where
  "planTitles =
     concat (map (\<lambda>s. map bi_title (blockPlan morning s))
               [working_out, working, studying, dinner, party, chill])
     @ concat (map (\<lambda>b. map bi_title (blockPlan b auto)) [morning, midday, evening, late_night])"

text \<open>The score as the specification's scoring section words its first three steps:
  the base match, the tweak adjustment, and half of every positive situation weight of a
  tag the track carries.\<close>

definition tweakAdjustment :: "Tweak \<Rightarrow> MockTrack \<Rightarrow> rat" where
  "tweakAdjustment tweak t =
     (case tweak of
        more_new \<Rightarrow> if ''throwback'' \<in> set (tags t) then - 2 else 2
      | more_familiar \<Rightarrow> if ''throwback'' \<in> set (tags t) then 3 else 0
      | no_repeats \<Rightarrow> 0
      | none \<Rightarrow> 0)"

definition statedScore :: "MockTrack \<Rightarrow> string \<Rightarrow> Tweak \<Rightarrow> Situation \<Rightarrow> rat" where
  "statedScore t intent tweak situation =
     (if intent \<in> set (tags t) then 6 else 0)
     + (if intent = ''discovery'' then 1 else 0)
     + tweakAdjustment tweak t
     + (\<Sum>tag\<leftarrow>tags t. if intentBoost situation tag > 0
                           then (1 / 2) * intentBoost situation tag else 0)"

text \<open>The two further terms of the code's score: the nudges on the track's features that
  five situations apply, and the penalty for a track an earlier block already holds.\<close>

definition featureNudge :: "Situation \<Rightarrow> Profile \<Rightarrow> rat" where
  "featureNudge situation p =
     (case situation of
        studying \<Rightarrow> (if focus_noise p = Low then 2 else 0) - (if focus_noise p = High then 2 else 0)
                    + (if valence p < 40 then 1 else 0) + (if bpm p < 90 then 1 else 0)
      | working_out \<Rightarrow> - (if energy p < 70 then 1 else 0) - (if bpm p < 110 then 1 else 0)
                       - (if valence p < 50 then 1 else 0)
      | party \<Rightarrow> - (if energy p < 80 then 1 else 0) - (if bpm p < 120 then 1 else 0)
                 - (if valence p < 60 then 1 else 0)
      | dinner \<Rightarrow> - (if energy p > 60 then 1 else 0) - (if bpm p > 110 then 1 else 0)
                  - (if valence p < 50 then 1 else 0)
      | chill \<Rightarrow> - (if energy p > 60 then 1 else 0) - (if bpm p > 100 then 1 else 0)
      | working \<Rightarrow> 0
      | auto \<Rightarrow> 0)"

definition duplicatePenalty :: "bool \<Rightarrow> nat \<Rightarrow> rat" where
  "duplicatePenalty already blockIndex = (if already then (if blockIndex < 3 then 1000 else 5) else 0)"

text \<open>The five phrasings \<open>generateFeatureBasedReason\<close> chooses from by the block title,
  in the order of its branches.\<close>

definition reasonVariants :: "MockTrack \<Rightarrow> string list" where
  "reasonVariants track =
     (let b = bpm (profile track); e = energy (profile track); v = valence (profile track);
          tag = sonicTag (profile track);
          energyLevel = (if e > 75 then ''high-energy'' else if e > 55 then ''mid-tempo'' else ''low-key'');
          mood = (if v > 70 then ''upbeat'' else if v > 50 then ''mid valence'' else ''mellower mood'');
          lyricNote = (if focus_noise (profile track) = Low then ''Low lyric density''
                       else ''Steady presence'')
      in [string_of_nat b @ '' bpm with '' @ tag @ ''. '' @ capitalize energyLevel
            @ '' without going full EDM.'',
          lyricNote @ '', '' @ string_of_nat b @ '' bpm. Study-safe.'',
          capitalize tag @ '' + '' @ mood @ ''. Dinner table friendly.'',
          string_of_nat b @ '' bpm, '' @ energyLevel @ ''. '' @ capitalize mood
            @ '' to shift gears.'',
          string_of_nat b @ '' bpm with '' @ tag @ ''. '' @ capitalize energyLevel @ '', ''
            @ mood @ ''.''])"

text \<open>Whether some phrasing of a track contains a given phrase.\<close>

definition mentions :: "string \<Rightarrow> MockTrack \<Rightarrow> bool" where
  "mentions phrase track = list_ex (\<lambda>r. js_includes r phrase) (reasonVariants track)"

section \<open>Properties\<close>

subsection \<open>Time buckets\<close>

text \<open>
  C5. For every minute \<open>m\<close> of the day, \<open>0 \<le> m < 1440\<close>, the bucket is morning
  exactly on [420,720), midday exactly on [720,1020), evening exactly on [1020,1320) and
  late_night exactly on [1320,1440), [0,120) and [120,420); minute 419 is late_night,
  420 and 719 are morning, 720 is midday.
\<close>

theorem getTimeBucketFromMinutes_classification:
  assumes "0 \<le> m" and "m < 1440"
  shows "(getTimeBucketFromMinutes m = morning \<longleftrightarrow> 420 \<le> m \<and> m < 720)
       \<and> (getTimeBucketFromMinutes m = midday \<longleftrightarrow> 720 \<le> m \<and> m < 1020)
       \<and> (getTimeBucketFromMinutes m = evening \<longleftrightarrow> 1020 \<le> m \<and> m < 1320)
       \<and> (getTimeBucketFromMinutes m = late_night \<longleftrightarrow>
            (1320 \<le> m \<and> m < 1440) \<or> (0 \<le> m \<and> m < 120) \<or> (120 \<le> m \<and> m < 420))
       \<and> getTimeBucketFromMinutes 419 = late_night
       \<and> getTimeBucketFromMinutes 420 = morning
       \<and> getTimeBucketFromMinutes 719 = morning
       \<and> getTimeBucketFromMinutes 720 = midday"
  using assms by (auto simp add: getTimeBucketFromMinutes_def)

theorem getTimeBucketFromMinutes_classification_witness:
  "(0::int) \<le> 1319 \<and> (1319::int) < 1440
   \<and> getTimeBucketFromMinutes 1319 = evening
   \<and> getTimeBucketFromMinutes 1319 \<noteq> late_night"
  using getTimeBucketFromMinutes_classification [of 1319] by simp

subsection \<open>Block plans\<close>

text \<open>
  C7. For every situation other than \<open>auto\<close> and every time bucket, \<open>blockPlan\<close>
  returns that situation's entry of \<open>SITUATION_PRESETS\<close>, the same list for every
  bucket; for \<open>working_out\<close> the intents are ramp, energy, throwback, discovery, reset.
\<close>

theorem blockPlan_situation_override:
  assumes "situation \<noteq> auto"
  shows "SITUATION_PRESETS situation = Some (blockPlan bucket situation)
       \<and> blockPlan bucket situation = blockPlan bucket' situation
       \<and> map bi_intent (blockPlan bucket working_out)
           = [''ramp'', ''energy'', ''throwback'', ''discovery'', ''reset'']"
  using assms by (cases situation) (simp_all add: blockPlan_def mk_def)

theorem blockPlan_situation_override_witness:
  "party \<noteq> auto
   \<and> SITUATION_PRESETS party = Some (blockPlan morning party)
   \<and> blockPlan morning party = blockPlan late_night party
   \<and> map bi_intent (blockPlan morning working_out)
       = [''ramp'', ''energy'', ''throwback'', ''discovery'', ''reset'']"
  using blockPlan_situation_override [of party morning late_night] by simp

subsection \<open>The shuffle is a permutation\<close>

lemma shuffle_index_le: "nat ((uint (x :: 32 word) * (int i + 1)) div 4294967296) \<le> i"
proof -
  have "uint x < 4294967296"
    using uint_bounded [of x] by simp
  then have "uint x * (int i + 1) < 4294967296 * (int i + 1)"
    by (intro mult_strict_right_mono) auto
  moreover have "p div 4294967296 < n" if "p < 4294967296 * n" for p n :: int
    using that by linarith
  ultimately have "(uint x * (int i + 1)) div 4294967296 < int i + 1"
    by blast
  then show ?thesis by linarith
qed

lemma shuffle_loop_mset: "k < length a \<Longrightarrow> mset (shuffle_loop k x a) = mset a"
proof (induction k arbitrary: x a)
  case 0
  then show ?case by simp
next
  case (Suc k)
  let ?j = "nat ((uint (xorshift32 x) * (int (Suc k) + 1)) div 4294967296)"
  have j: "?j < length a"
    using shuffle_index_le [of "xorshift32 x" "Suc k"] Suc.prems by linarith
  have "mset (a[Suc k := a ! ?j, ?j := a ! Suc k]) = mset a"
    using j Suc.prems by (rule mset_swap)
  moreover have "k < length (a[Suc k := a ! ?j, ?j := a ! Suc k])"
    using Suc.prems by simp
  ultimately show ?case
    using Suc.IH [of "a[Suc k := a ! ?j, ?j := a ! Suc k]" "xorshift32 x"]
    by (simp add: Let_def)
qed

lemma seededShuffle_mset: "mset (seededShuffle arr seed) = mset arr"
proof (cases arr)
  case Nil
  then show ?thesis by (simp add: seededShuffle_def)
next
  case (Cons a as)
  then have "length arr - 1 < length arr" by simp
  then show ?thesis unfolding seededShuffle_def by (rule shuffle_loop_mset)
qed

lemma ordered_mset:
  "mset (map fst (ordered catalog intent tweak seed situation blockIndex globalSeen)) = mset catalog"
proof -
  have "mset (map fst (ordered catalog intent tweak seed situation blockIndex globalSeen))
        = image_mset fst (mset (map (\<lambda>t. (t, trackScore t intent tweak situation blockIndex globalSeen))
                                     (seededShuffle catalog seed)))"
    by (simp add: ordered_def)
  also have "\<dots> = mset (seededShuffle catalog seed)"
    by (simp add: image_mset.compositionality comp_def)
  finally show ?thesis by (simp add: seededShuffle_mset)
qed

lemma ordered_set:
  "set (map fst (ordered catalog intent tweak seed situation blockIndex globalSeen)) = set catalog"
  using ordered_mset [of catalog intent tweak seed situation blockIndex globalSeen]
  by (metis set_mset_mset)

lemma ordered_length:
  "length (map fst (ordered catalog intent tweak seed situation blockIndex globalSeen)) = length catalog"
  using ordered_mset [of catalog intent tweak seed situation blockIndex globalSeen]
  by (metis size_mset)

lemma ordered_distinct:
  assumes "distinct (map track_id catalog)"
  shows "distinct (map track_id (map fst (ordered catalog intent tweak seed situation blockIndex globalSeen)))"
proof -
  have "mset (map track_id (map fst (ordered catalog intent tweak seed situation blockIndex globalSeen)))
        = mset (map track_id catalog)"
    using ordered_mset [of catalog intent tweak seed situation blockIndex globalSeen]
    by (metis mset_map)
  then show ?thesis using assms by (metis mset_eq_imp_distinct_iff)
qed

subsection \<open>Counting the tracks whose id lies in a set\<close>

lemma filter_in_set_le_card:
  assumes "distinct (map f xs)" and "finite S"
  shows "length (filter (\<lambda>x. f x \<in> S) xs) \<le> card S"
proof -
  have d: "distinct (map f (filter (\<lambda>x. f x \<in> S) xs))"
    using assms(1) by (rule distinct_map_filter)
  have "length (filter (\<lambda>x. f x \<in> S) xs) = length (map f (filter (\<lambda>x. f x \<in> S) xs))"
    by simp
  also have "\<dots> = card (set (map f (filter (\<lambda>x. f x \<in> S) xs)))"
    using d by (simp only: distinct_card)
  also have "\<dots> \<le> card S"
    using assms(2) by (intro card_mono) auto
  finally show ?thesis .
qed

lemma filter_not_in_set_ge:
  assumes "distinct (map f xs)" and "finite S"
  shows "length xs \<le> card S + length (filter (\<lambda>x. f x \<notin> S) xs)"
proof -
  have "length xs = length (filter (\<lambda>x. f x \<in> S) xs) + length (filter (\<lambda>x. \<not> f x \<in> S) xs)"
    by (rule sum_length_filter_compl [symmetric])
  then show ?thesis using filter_in_set_le_card [OF assms] by simp
qed

subsection \<open>The two loops of the selector\<close>

lemma pickLoop_length_le:
  "length picked \<le> 5 \<Longrightarrow> length (fst (pickLoop tweak ts (picked, seen, g))) \<le> 5"
  by (induction ts arbitrary: picked seen g) auto

lemma pickLoop_set:
  "set (fst (pickLoop tweak ts (picked, seen, g))) \<subseteq> set picked \<union> set ts"
proof (induction ts arbitrary: picked seen g)
  case Nil
  then show ?case by simp
next
  case (Cons t ts)
  show ?case
    using Cons.IH [of picked seen g]
      Cons.IH [of "picked @ [t]" "insert (track_id t) seen" "insert (track_id t) g"]
    by auto
qed

lemma pickLoop_distinct:
  "distinct (map track_id ts) \<Longrightarrow> distinct (map track_id picked)
   \<Longrightarrow> track_id ` set picked \<inter> track_id ` set ts = {}
   \<Longrightarrow> distinct (map track_id (fst (pickLoop tweak ts (picked, seen, g))))"
proof (induction ts arbitrary: picked seen g)
  case Nil
  then show ?case by simp
next
  case (Cons t ts)
  have a: "distinct (map track_id (fst (pickLoop tweak ts (picked, seen, g))))"
    using Cons.prems by (intro Cons.IH) auto
  have b: "distinct (map track_id (fst (pickLoop tweak ts
             (picked @ [t], insert (track_id t) seen, insert (track_id t) g))))"
    using Cons.prems by (intro Cons.IH) auto
  show ?case using a b Cons.prems(2) by auto
qed

lemma pickLoop_sets:
  "pickLoop tweak ts (picked, seen, g) = (picked', seen', g')
   \<Longrightarrow> seen \<subseteq> seen' \<and> g \<subseteq> g'
       \<and> (track_id ` set picked \<subseteq> seen \<longrightarrow> track_id ` set picked' \<subseteq> seen')
       \<and> (track_id ` set picked \<subseteq> g \<longrightarrow> track_id ` set picked' \<subseteq> g')"
proof (induction ts arbitrary: picked seen g)
  case Nil
  then show ?case by auto
next
  case (Cons t ts)
  show ?case
  proof (cases "length picked \<ge> 5")
    case True
    then show ?thesis using Cons.prems by auto
  next
    case False
    show ?thesis
    proof (cases "tweak = no_repeats \<and> track_id t \<in> seen")
      case True
      then have "pickLoop tweak ts (picked, seen, g) = (picked', seen', g')"
        using Cons.prems False by simp
      then show ?thesis by (rule Cons.IH)
    next
      case skip: False
      then have "pickLoop tweak ts (picked @ [t], insert (track_id t) seen, insert (track_id t) g)
                 = (picked', seen', g')"
        using Cons.prems False by auto
      from Cons.IH [OF this] show ?thesis by auto
    qed
  qed
qed

text \<open>When the first loop ends with fewer than five tracks, it has walked the whole
  list, and every track of the list is then in \<open>seen\<close>.\<close>

lemma pickLoop_short_all_seen:
  "pickLoop tweak ts (picked, seen, g) = (picked', seen', g') \<Longrightarrow> length picked' < 5
   \<Longrightarrow> track_id ` set ts \<subseteq> seen'"
proof (induction ts arbitrary: picked seen g)
  case Nil
  then show ?case by simp
next
  case (Cons t ts)
  show ?case
  proof (cases "length picked \<ge> 5")
    case True
    then show ?thesis using Cons.prems by auto
  next
    case False
    show ?thesis
    proof (cases "tweak = no_repeats \<and> track_id t \<in> seen")
      case True
      then have eq: "pickLoop tweak ts (picked, seen, g) = (picked', seen', g')"
        using Cons.prems False by simp
      have "track_id t \<in> seen'" using pickLoop_sets [OF eq] True by auto
      then show ?thesis using Cons.IH [OF eq Cons.prems(2)] by simp
    next
      case skip: False
      then have eq: "pickLoop tweak ts (picked @ [t], insert (track_id t) seen, insert (track_id t) g)
                     = (picked', seen', g')"
        using Cons.prems False by auto
      have "track_id t \<in> seen'" using pickLoop_sets [OF eq] by auto
      then show ?thesis using Cons.IH [OF eq Cons.prems(2)] by simp
    qed
  qed
qed

text \<open>Under \<open>no_repeats\<close> the first loop only appends tracks that were not in
  \<open>seen\<close>, and \<open>seen\<close> grows by exactly their ids.\<close>

lemma pickLoop_fresh:
  "pickLoop no_repeats ts (picked, seen, g) = (picked', seen', g')
   \<Longrightarrow> \<exists>extra. picked' = picked @ extra \<and> track_id ` set extra \<inter> seen = {}
              \<and> seen' = seen \<union> track_id ` set extra"
proof (induction ts arbitrary: picked seen g)
  case Nil
  then show ?case by auto
next
  case (Cons t ts)
  show ?case
  proof (cases "length picked \<ge> 5")
    case True
    then show ?thesis using Cons.prems by auto
  next
    case False
    show ?thesis
    proof (cases "track_id t \<in> seen")
      case True
      then have "pickLoop no_repeats ts (picked, seen, g) = (picked', seen', g')"
        using Cons.prems False by simp
      then show ?thesis by (rule Cons.IH)
    next
      case fresh: False
      then have "pickLoop no_repeats ts (picked @ [t], insert (track_id t) seen, insert (track_id t) g)
                 = (picked', seen', g')"
        using Cons.prems False by auto
      from Cons.IH [OF this] obtain extra where
        e: "picked' = (picked @ [t]) @ extra"
           "track_id ` set extra \<inter> insert (track_id t) seen = {}"
           "seen' = insert (track_id t) seen \<union> track_id ` set extra"
        by blast
      have "picked' = picked @ (t # extra)" using e(1) by simp
      moreover have "track_id ` set (t # extra) \<inter> seen = {}" using e(2) fresh by auto
      moreover have "seen' = seen \<union> track_id ` set (t # extra)" using e(3) by auto
      ultimately show ?thesis by blast
    qed
  qed
qed

text \<open>How many tracks the first loop returns: five, or all it may take.\<close>

lemma pickLoop_length:
  "distinct (map track_id ts) \<Longrightarrow> length picked \<le> 5
   \<Longrightarrow> length (fst (pickLoop tweak ts (picked, seen, g)))
       = min 5 (length picked
                + length (filter (\<lambda>t. \<not> (tweak = no_repeats \<and> track_id t \<in> seen)) ts))"
proof (induction ts arbitrary: picked seen g)
  case Nil
  then show ?case by simp
next
  case (Cons t ts)
  let ?P = "\<lambda>s u. \<not> (tweak = no_repeats \<and> track_id u \<in> s)"
  have d: "distinct (map track_id ts)"
    using Cons.prems(1) by simp
  have "track_id t \<notin> track_id ` set ts"
    using Cons.prems(1) by simp
  then have nt: "track_id u \<noteq> track_id t" if "u \<in> set ts" for u
    using that by (metis imageI)
  show ?case
  proof (cases "length picked \<ge> 5")
    case True
    then show ?thesis using Cons.prems(2) by simp
  next
    case False
    then have le: "length (picked @ [t]) \<le> 5" by simp
    show ?thesis
    proof (cases "tweak = no_repeats \<and> track_id t \<in> seen")
      case True
      have "length (fst (pickLoop tweak (t # ts) (picked, seen, g)))
            = length (fst (pickLoop tweak ts (picked, seen, g)))"
        using True False by simp
      also have "\<dots> = min 5 (length picked + length (filter (?P seen) ts))"
        by (rule Cons.IH [OF d Cons.prems(2)])
      also have "filter (?P seen) ts = filter (?P seen) (t # ts)"
        using True by simp
      finally show ?thesis .
    next
      case take: False
      have same: "filter (?P (insert (track_id t) seen)) ts = filter (?P seen) ts"
        using nt by (intro filter_cong) auto
      have "length (fst (pickLoop tweak (t # ts) (picked, seen, g)))
            = length (fst (pickLoop tweak ts
                (picked @ [t], insert (track_id t) seen, insert (track_id t) g)))"
        using take False by auto
      also have "\<dots> = min 5 (length (picked @ [t])
                               + length (filter (?P (insert (track_id t) seen)) ts))"
        by (rule Cons.IH [OF d le])
      also have "\<dots> = min 5 (length (picked @ [t]) + length (filter (?P seen) ts))"
        by (simp only: same)
      also have "\<dots> = min 5 (length picked + length (filter (?P seen) (t # ts)))"
        using take by auto
      finally show ?thesis .
    qed
  qed
qed

lemma fillLoop_set:
  "set (fst (fillLoop ts (picked, g))) \<subseteq> set picked \<union> set ts"
proof (induction ts arbitrary: picked g)
  case Nil
  then show ?case by simp
next
  case (Cons t ts)
  show ?case
    using Cons.IH [of picked g] Cons.IH [of "picked @ [t]" "insert (track_id t) g"]
    by auto
qed

lemma fillLoop_distinct:
  "distinct (map track_id picked) \<Longrightarrow> distinct (map track_id (fst (fillLoop ts (picked, g))))"
proof (induction ts arbitrary: picked g)
  case Nil
  then show ?case by simp
next
  case (Cons t ts)
  show ?case
  proof (cases "list_ex (\<lambda>p. track_id p = track_id t) picked")
    case True
    then show ?thesis using Cons.IH [OF Cons.prems, of g] Cons.prems by simp
  next
    case False
    then have "distinct (map track_id (picked @ [t]))"
      using Cons.prems by (auto simp add: list_ex_iff)
    from Cons.IH [OF this, of "insert (track_id t) g"] show ?thesis
      using False Cons.prems by simp
  qed
qed

lemma fillLoop_globalSeen_mono: "g \<subseteq> snd (fillLoop ts (picked, g))"
proof (induction ts arbitrary: picked g)
  case Nil
  then show ?case by simp
next
  case (Cons t ts)
  show ?case
    using Cons.IH [of g picked] Cons.IH [of "insert (track_id t) g" "picked @ [t]"]
    by auto
qed

lemma fillLoop_globalSeen:
  "track_id ` set picked \<subseteq> g
   \<Longrightarrow> track_id ` set (fst (fillLoop ts (picked, g))) \<subseteq> snd (fillLoop ts (picked, g))"
proof (induction ts arbitrary: picked g)
  case Nil
  then show ?case by simp
next
  case (Cons t ts)
  have a: "track_id ` set (fst (fillLoop ts (picked, g))) \<subseteq> snd (fillLoop ts (picked, g))"
    using Cons.prems by (rule Cons.IH)
  have "track_id ` set (picked @ [t]) \<subseteq> insert (track_id t) g"
    using Cons.prems by auto
  then have b: "track_id ` set (fst (fillLoop ts (picked @ [t], insert (track_id t) g)))
                \<subseteq> snd (fillLoop ts (picked @ [t], insert (track_id t) g))"
    by (rule Cons.IH)
  show ?case
  proof (cases "length picked \<ge> 5")
    case True
    then show ?thesis using Cons.prems by simp
  next
    case False
    then show ?thesis using a b by simp
  qed
qed

lemma fillLoop_length:
  "distinct (map track_id ts) \<Longrightarrow> length picked \<le> 5
   \<Longrightarrow> length (fst (fillLoop ts (picked, g)))
       = min 5 (length picked + length (filter (\<lambda>t. track_id t \<notin> track_id ` set picked) ts))"
proof (induction ts arbitrary: picked g)
  case Nil
  then show ?case by simp
next
  case (Cons t ts)
  let ?P = "\<lambda>ps u. track_id u \<notin> track_id ` set ps"
  have d: "distinct (map track_id ts)"
    using Cons.prems(1) by simp
  have "track_id t \<notin> track_id ` set ts"
    using Cons.prems(1) by simp
  then have nt: "track_id u \<noteq> track_id t" if "u \<in> set ts" for u
    using that by (metis imageI)
  show ?case
  proof (cases "length picked \<ge> 5")
    case True
    then show ?thesis using Cons.prems(2) by simp
  next
    case False
    then have le: "length (picked @ [t]) \<le> 5" by simp
    show ?thesis
    proof (cases "list_ex (\<lambda>p. track_id p = track_id t) picked")
      case True
      then obtain p where "p \<in> set picked" and "track_id p = track_id t"
        by (auto simp add: list_ex_iff)
      then have isin: "track_id t \<in> track_id ` set picked"
        by (metis imageI)
      have "length (fst (fillLoop (t # ts) (picked, g))) = length (fst (fillLoop ts (picked, g)))"
        using True False by simp
      also have "\<dots> = min 5 (length picked + length (filter (?P picked) ts))"
        by (rule Cons.IH [OF d Cons.prems(2)])
      also have "filter (?P picked) ts = filter (?P picked) (t # ts)"
        using isin by simp
      finally show ?thesis .
    next
      case new: False
      then have notin: "track_id t \<notin> track_id ` set picked"
        by (auto simp add: list_ex_iff)
      have same: "filter (?P (picked @ [t])) ts = filter (?P picked) ts"
        using nt by (intro filter_cong) auto
      have "length (fst (fillLoop (t # ts) (picked, g)))
            = length (fst (fillLoop ts (picked @ [t], insert (track_id t) g)))"
        using new False by simp
      also have "\<dots> = min 5 (length (picked @ [t]) + length (filter (?P (picked @ [t])) ts))"
        by (rule Cons.IH [OF d le])
      also have "\<dots> = min 5 (length (picked @ [t]) + length (filter (?P picked) ts))"
        by (simp only: same)
      also have "\<dots> = min 5 (length picked + length (filter (?P picked) (t # ts)))"
        using notin by simp
      finally show ?thesis .
    qed
  qed
qed

subsection \<open>One call of the selector\<close>

lemma pickTracksForIntent_eq:
  assumes "pickLoop tweak (map fst (ordered catalog intent tweak seed situation blockIndex globalSeen))
             ([], seen, globalSeen) = (picked, seen1, g1)"
  shows "pickTracksForIntent catalog intent tweak seed seen situation blockIndex globalSeen
         = (if length picked < 5
            then (fst (fillLoop (map fst (ordered catalog intent tweak seed situation blockIndex globalSeen))
                         (picked, g1)),
                  seen1,
                  snd (fillLoop (map fst (ordered catalog intent tweak seed situation blockIndex globalSeen))
                         (picked, g1)))
            else (picked, seen1, g1))"
  using assms by (simp add: pickTracksForIntent_def Let_def split: prod.splits)

lemma pickTracksForIntent_subset:
  "set (fst (pickTracksForIntent catalog intent tweak seed seen situation blockIndex globalSeen))
   \<subseteq> set catalog"
proof -
  let ?ord = "map fst (ordered catalog intent tweak seed situation blockIndex globalSeen)"
  obtain picked seen1 g1 where
    pl: "pickLoop tweak ?ord ([], seen, globalSeen) = (picked, seen1, g1)"
    by (metis prod_cases3)
  have so: "set ?ord = set catalog" by (rule ordered_set)
  have p: "set picked \<subseteq> set catalog"
    using pickLoop_set [of tweak ?ord "[]" seen globalSeen] pl so by simp
  have "set (fst (fillLoop ?ord (picked, g1))) \<subseteq> set catalog"
    using fillLoop_set [of ?ord picked g1] p so by blast
  then show ?thesis
    using p by (simp add: pickTracksForIntent_eq [OF pl])
qed

lemma pickTracksForIntent_distinct:
  assumes "distinct (map track_id catalog)"
  shows "distinct (map track_id
           (fst (pickTracksForIntent catalog intent tweak seed seen situation blockIndex globalSeen)))"
proof -
  let ?ord = "map fst (ordered catalog intent tweak seed situation blockIndex globalSeen)"
  obtain picked seen1 g1 where
    pl: "pickLoop tweak ?ord ([], seen, globalSeen) = (picked, seen1, g1)"
    by (metis prod_cases3)
  have "distinct (map track_id ?ord)" using assms by (rule ordered_distinct)
  then have "distinct (map track_id (fst (pickLoop tweak ?ord ([], seen, globalSeen))))"
    by (intro pickLoop_distinct) simp_all
  then have p: "distinct (map track_id picked)" using pl by simp
  then have "distinct (map track_id (fst (fillLoop ?ord (picked, g1))))"
    by (rule fillLoop_distinct)
  then show ?thesis
    using p by (simp add: pickTracksForIntent_eq [OF pl])
qed

lemma pickTracksForIntent_length:
  assumes "distinct (map track_id catalog)" and "5 \<le> length catalog"
  shows "length (fst (pickTracksForIntent catalog intent tweak seed seen situation blockIndex globalSeen))
         = 5"
proof -
  let ?ord = "map fst (ordered catalog intent tweak seed situation blockIndex globalSeen)"
  obtain picked seen1 g1 where
    pl: "pickLoop tweak ?ord ([], seen, globalSeen) = (picked, seen1, g1)"
    by (metis prod_cases3)
  have d: "distinct (map track_id ?ord)" using assms(1) by (rule ordered_distinct)
  have len: "length ?ord = length catalog" by (rule ordered_length)
  have "length (fst (pickLoop tweak ?ord ([], seen, globalSeen))) \<le> 5"
    by (rule pickLoop_length_le) simp
  then have le: "length picked \<le> 5" using pl by simp
  show ?thesis
  proof (cases "length picked < 5")
    case True
    let ?rest = "filter (\<lambda>t. track_id t \<notin> track_id ` set picked) ?ord"
    have "length ?ord \<le> card (track_id ` set picked) + length ?rest"
      using d by (rule filter_not_in_set_ge) simp
    moreover have "card (track_id ` set picked) \<le> length picked"
      by (metis card_image_le card_length le_trans List.finite_set)
    ultimately have "5 \<le> length picked + length ?rest"
      using len assms(2) by linarith
    moreover have "length (fst (fillLoop ?ord (picked, g1))) = min 5 (length picked + length ?rest)"
      using d le by (rule fillLoop_length)
    ultimately have "length (fst (fillLoop ?ord (picked, g1))) = 5" by simp
    then show ?thesis using True by (simp add: pickTracksForIntent_eq [OF pl])
  next
    case False
    then show ?thesis using le by (simp add: pickTracksForIntent_eq [OF pl])
  qed
qed

lemma pickTracksForIntent_sets:
  assumes "pickTracksForIntent catalog intent tweak seed seen situation blockIndex globalSeen
           = (picked', seen', g')"
  shows "seen \<subseteq> seen' \<and> globalSeen \<subseteq> g'
         \<and> track_id ` set picked' \<subseteq> seen' \<and> track_id ` set picked' \<subseteq> g'"
proof -
  let ?ord = "map fst (ordered catalog intent tweak seed situation blockIndex globalSeen)"
  obtain picked seen1 g1 where
    pl: "pickLoop tweak ?ord ([], seen, globalSeen) = (picked, seen1, g1)"
    by (metis prod_cases3)
  have s: "seen \<subseteq> seen1" "globalSeen \<subseteq> g1"
    "track_id ` set picked \<subseteq> seen1" "track_id ` set picked \<subseteq> g1"
    using pickLoop_sets [OF pl] by simp_all
  show ?thesis
  proof (cases "length picked < 5")
    case True
    let ?f = "fillLoop ?ord (picked, g1)"
    have eq: "picked' = fst ?f" "seen' = seen1" "g' = snd ?f"
      using assms True by (simp_all add: pickTracksForIntent_eq [OF pl])
    have all: "track_id ` set ?ord \<subseteq> seen1"
      using pl True by (rule pickLoop_short_all_seen)
    have "set (fst ?f) \<subseteq> set picked \<union> set ?ord" by (rule fillLoop_set)
    then have "track_id ` set (fst ?f) \<subseteq> track_id ` set picked \<union> track_id ` set ?ord"
      by blast
    then have a: "track_id ` set (fst ?f) \<subseteq> seen1" using s(3) all by blast
    have b: "track_id ` set (fst ?f) \<subseteq> snd ?f" using s(4) by (rule fillLoop_globalSeen)
    have c: "g1 \<subseteq> snd ?f" by (rule fillLoop_globalSeen_mono)
    show ?thesis using a b c s(1,2) by (auto simp add: eq)
  next
    case False
    then have "picked' = picked" "seen' = seen1" "g' = g1"
      using assms by (simp_all add: pickTracksForIntent_eq [OF pl])
    then show ?thesis using s by simp
  qed
qed

text \<open>Under \<open>no_repeats\<close>, while at least five catalog tracks are still unseen, the
  block consists of five unseen tracks and \<open>seen\<close> grows by exactly these.\<close>

lemma pickTracksForIntent_fresh:
  assumes "distinct (map track_id catalog)" and "finite seen"
    and "card seen + 5 \<le> length catalog"
    and "pickTracksForIntent catalog intent no_repeats seed seen situation blockIndex globalSeen
         = (picked', seen', g')"
  shows "length picked' = 5 \<and> track_id ` set picked' \<inter> seen = {}
         \<and> seen' = seen \<union> track_id ` set picked'"
proof -
  let ?ord = "map fst (ordered catalog intent no_repeats seed situation blockIndex globalSeen)"
  obtain picked seen1 g1 where
    pl: "pickLoop no_repeats ?ord ([], seen, globalSeen) = (picked, seen1, g1)"
    by (metis prod_cases3)
  have d: "distinct (map track_id ?ord)" using assms(1) by (rule ordered_distinct)
  have len: "length ?ord = length catalog" by (rule ordered_length)
  let ?unseen = "filter (\<lambda>t. track_id t \<notin> seen) ?ord"
  have "length ?ord \<le> card seen + length ?unseen"
    using d assms(2) by (rule filter_not_in_set_ge)
  then have enough: "5 \<le> length ?unseen" using len assms(3) by linarith
  have "length (fst (pickLoop no_repeats ?ord ([], seen, globalSeen)))
        = min 5 (length ([] :: MockTrack list)
                 + length (filter (\<lambda>t. \<not> (no_repeats = no_repeats \<and> track_id t \<in> seen)) ?ord))"
    using d by (rule pickLoop_length) simp
  then have five: "length picked = 5" using pl enough by simp
  then have eq: "picked' = picked" "seen' = seen1"
    using assms(4) by (simp_all add: pickTracksForIntent_eq [OF pl])
  from pickLoop_fresh [OF pl] obtain extra where
    "picked = [] @ extra" "track_id ` set extra \<inter> seen = {}" "seen1 = seen \<union> track_id ` set extra"
    by blast
  then show ?thesis using five eq by simp
qed

subsection \<open>The sequence of blocks\<close>

lemma pickBlocks_lengths:
  assumes "distinct (map track_id catalog)" and "5 \<le> length catalog"
  shows "map (\<lambda>b. length (snd (snd b))) (pickBlocks catalog tweak seed situation idx seen g plan)
         = replicate (length plan) 5"
proof (induction plan arbitrary: idx seen g)
  case Nil
  then show ?case by simp
next
  case (Cons p ps)
  show ?case
    using pickTracksForIntent_length [OF assms, of "bi_intent p" tweak "seed + int idx * 101" seen
        situation idx g] Cons.IH
    by (auto simp add: Let_def split: prod.splits)
qed

lemma pickBlocks_length:
  "length (pickBlocks catalog tweak seed situation idx seen g plan) = length plan"
  by (induction plan arbitrary: idx seen g) (simp_all add: Let_def split: prod.splits)

lemma pickBlocks_plan:
  "map fst (pickBlocks catalog tweak seed situation idx seen g plan) = plan"
  by (induction plan arbitrary: idx seen g) (simp_all add: Let_def split: prod.splits)

lemma pickBlocks_index:
  "map (\<lambda>b. fst (snd b)) (pickBlocks catalog tweak seed situation idx seen g plan)
   = [idx ..< idx + length plan]"
proof (induction plan arbitrary: idx seen g)
  case Nil
  then show ?case by simp
next
  case (Cons p ps)
  have "[idx ..< idx + length (p # ps)] = idx # [Suc idx ..< Suc idx + length ps]"
    by (simp add: upt_rec)
  then show ?case using Cons.IH by (simp add: Let_def split: prod.splits)
qed

lemma pickBlocks_distinct_each:
  assumes "distinct (map track_id catalog)"
  shows "list_all (\<lambda>b. distinct (map track_id (snd (snd b))) \<and> set (snd (snd b)) \<subseteq> set catalog)
           (pickBlocks catalog tweak seed situation idx seen g plan)"
proof (induction plan arbitrary: idx seen g)
  case Nil
  then show ?case by simp
next
  case (Cons p ps)
  show ?case
    using pickTracksForIntent_distinct [OF assms, of "bi_intent p" tweak "seed + int idx * 101" seen
        situation idx g]
      pickTracksForIntent_subset [of catalog "bi_intent p" tweak "seed + int idx * 101" seen
        situation idx g]
      Cons.IH
    by (auto simp add: Let_def split: prod.splits)
qed

lemma pickBlocks_no_repeats:
  assumes "distinct (map track_id catalog)"
  shows "finite seen \<Longrightarrow> card seen + 5 * length plan \<le> length catalog
    \<Longrightarrow> distinct (concat (map (\<lambda>b. map track_id (snd (snd b)))
                     (pickBlocks catalog no_repeats seed situation idx seen g plan)))
        \<and> set (concat (map (\<lambda>b. map track_id (snd (snd b)))
                     (pickBlocks catalog no_repeats seed situation idx seen g plan))) \<inter> seen = {}"
proof (induction plan arbitrary: idx seen g)
  case Nil
  then show ?case by simp
next
  case (Cons p ps)
  obtain picked seen' g' where
    pk: "pickTracksForIntent catalog (bi_intent p) no_repeats (seed + int idx * 101) seen situation idx g
         = (picked, seen', g')"
    by (metis prod_cases3)
  have room: "card seen + 5 \<le> length catalog" using Cons.prems(2) by simp
  have fr: "length picked = 5" "track_id ` set picked \<inter> seen = {}"
    "seen' = seen \<union> track_id ` set picked"
    using pickTracksForIntent_fresh [OF assms Cons.prems(1) room pk] by simp_all
  have dp: "distinct (map track_id picked)"
    using pickTracksForIntent_distinct [OF assms, of "bi_intent p" no_repeats "seed + int idx * 101"
        seen situation idx g] pk by simp
  have fin: "finite seen'" using fr(3) Cons.prems(1) by simp
  have "card seen' \<le> card seen + card (track_id ` set picked)"
    unfolding fr(3) by (rule card_Un_le)
  moreover have "card (track_id ` set picked) \<le> length picked"
    by (metis card_image_le card_length le_trans List.finite_set)
  ultimately have "card seen' + 5 * length ps \<le> length catalog"
    using fr(1) Cons.prems(2) by simp
  from Cons.IH [OF fin this, of "Suc idx" g']
  have ih: "distinct (concat (map (\<lambda>b. map track_id (snd (snd b)))
                (pickBlocks catalog no_repeats seed situation (Suc idx) seen' g' ps)))"
    "set (concat (map (\<lambda>b. map track_id (snd (snd b)))
                (pickBlocks catalog no_repeats seed situation (Suc idx) seen' g' ps))) \<inter> seen' = {}"
    by simp_all
  let ?rest = "concat (map (\<lambda>b. map track_id (snd (snd b)))
                (pickBlocks catalog no_repeats seed situation (Suc idx) seen' g' ps))"
  have un: "concat (map (\<lambda>b. map track_id (snd (snd b)))
              (pickBlocks catalog no_repeats seed situation idx seen g (p # ps)))
            = map track_id picked @ ?rest"
    using pk by (simp add: Let_def)
  have AR: "set (map track_id picked) \<inter> set ?rest = {}"
    using ih(2) fr(3) by auto
  have Rs: "set ?rest \<inter> seen = {}"
    using ih(2) fr(3) by auto
  have As: "set (map track_id picked) \<inter> seen = {}"
    using fr(2) by simp
  have "distinct (map track_id picked @ ?rest)"
    using dp ih(1) AR by (metis distinct_append)
  moreover have "set (map track_id picked @ ?rest) \<inter> seen = {}"
    unfolding set_append using As Rs by blast
  ultimately show ?case
    unfolding un by blast
qed

subsection \<open>The catalog of the module\<close>

lemma MOCK_TRACKS_length: "length MOCK_TRACKS = 24"
  by (simp add: MOCK_TRACKS_def)

lemma MOCK_TRACKS_distinct: "distinct (map track_id MOCK_TRACKS)"
  by (simp add: MOCK_TRACKS_def)

subsection \<open>From picked tracks to response blocks\<close>

lemma finishBlock_ids:
  "map tr_id (tracks (finishBlock oembedCache bucket engine situation b))
   = map track_id (snd (snd b))"
  by (cases b) (simp add: finishBlock_def Let_def comp_def)

lemma buildBlocks_ids:
  "map (\<lambda>b. map tr_id (tracks b))
     (buildBlocksWithArtwork catalog oembedCache bucket tweak engine seed situation)
   = map (\<lambda>b. map track_id (snd (snd b)))
       (pickBlocks catalog tweak seed situation 0 {} {} (blockPlan bucket situation))"
  by (simp add: buildBlocksWithArtwork_def Let_def comp_def finishBlock_ids)

lemma buildBlocks_length:
  "length (buildBlocksWithArtwork catalog oembedCache bucket tweak engine seed situation)
   = length (blockPlan bucket situation)"
  by (simp add: buildBlocksWithArtwork_def Let_def pickBlocks_length)

subsection \<open>Selection: distinctness, cardinality, no repeats\<close>

text \<open>
  C10. Whatever the intent, tweak (also \<open>no_repeats\<close>), seed, situation, block index
  and state of the two sets, the tracks \<open>pickTracksForIntent\<close> returns for one block
  have pairwise distinct ids, provided the catalog's ids are pairwise distinct. The
  bound on the catalog's length is the range on which the model of \<open>seededShuffle\<close>
  is exact; the module's catalog has 24 tracks.
\<close>

theorem within_block_distinct:
  assumes "distinct (map track_id catalog)" and "length catalog \<le> 2097152"
  shows "distinct (map track_id
           (fst (pickTracksForIntent catalog intent tweak seed seen situation blockIndex globalSeen)))"
  using assms(1) by (rule pickTracksForIntent_distinct)

theorem within_block_distinct_witness:
  "distinct (map track_id MOCK_TRACKS) \<and> length MOCK_TRACKS \<le> 2097152
   \<and> distinct (map track_id
         (fst (pickTracksForIntent MOCK_TRACKS ''focus'' no_repeats 12345
                 (set (map track_id MOCK_TRACKS)) studying 4 (set (map track_id MOCK_TRACKS)))))"
proof -
  have d: "distinct (map track_id MOCK_TRACKS)" by (rule MOCK_TRACKS_distinct)
  have l: "length MOCK_TRACKS \<le> 2097152" by (simp add: MOCK_TRACKS_length)
  show ?thesis
    using d l within_block_distinct [OF d l, of "''focus''" no_repeats 12345
        "set (map track_id MOCK_TRACKS)" studying 4 "set (map track_id MOCK_TRACKS)"]
    by blast
qed

text \<open>
  C2. When the catalog has at least five tracks (with pairwise distinct ids, as the data
  model requires), \<open>pickTracksForIntent\<close> returns exactly five tracks for every
  intent, tweak, seed, situation, block index and state of the two sets, so also when
  \<open>no_repeats\<close> excludes every candidate in the first loop and the fallback loop fills
  the block; hence every block of the response has exactly five tracks.
\<close>

theorem block_cardinality:
  assumes "distinct (map track_id catalog)" and "5 \<le> length catalog"
    and "length catalog \<le> 2097152"
  shows "length (fst (pickTracksForIntent catalog intent tweak seed seen situation blockIndex globalSeen))
         = 5
       \<and> map (\<lambda>b. length (tracks b))
           (buildBlocksWithArtwork catalog oembedCache bucket tweak engine seed' situation')
         = replicate (length (blockPlan bucket situation')) 5"
proof -
  have "map (\<lambda>b. length (tracks b))
          (buildBlocksWithArtwork catalog oembedCache bucket tweak engine seed' situation')
        = map (\<lambda>b. length (map tr_id (tracks b)))
            (buildBlocksWithArtwork catalog oembedCache bucket tweak engine seed' situation')"
    by simp
  also have "\<dots> = map length (map (\<lambda>b. map tr_id (tracks b))
            (buildBlocksWithArtwork catalog oembedCache bucket tweak engine seed' situation'))"
    by (simp only: map_map comp_def)
  also have "\<dots> = map (\<lambda>b. length (snd (snd b)))
            (pickBlocks catalog tweak seed' situation' 0 {} {} (blockPlan bucket situation'))"
    by (simp only: buildBlocks_ids map_map comp_def length_map)
  also have "\<dots> = replicate (length (blockPlan bucket situation')) 5"
    using assms(1,2) by (rule pickBlocks_lengths)
  finally show ?thesis
    using pickTracksForIntent_length [OF assms(1,2)] by simp
qed

theorem block_cardinality_witness:
  "distinct (map track_id MOCK_TRACKS) \<and> 5 \<le> length MOCK_TRACKS
   \<and> length MOCK_TRACKS \<le> 2097152
   \<and> length (fst (pickTracksForIntent MOCK_TRACKS ''reset'' no_repeats 99
                    (set (map track_id MOCK_TRACKS)) auto 3 {})) = 5
   \<and> map (\<lambda>b. length (tracks b))
        (buildBlocksWithArtwork MOCK_TRACKS Map.empty evening no_repeats my_engine 7 party)
      = [5, 5, 5, 5, 5]"
proof -
  have d: "distinct (map track_id MOCK_TRACKS)" by (rule MOCK_TRACKS_distinct)
  have n: "5 \<le> length MOCK_TRACKS" by (simp add: MOCK_TRACKS_length)
  have l: "length MOCK_TRACKS \<le> 2097152" by (simp add: MOCK_TRACKS_length)
  have p: "replicate (length (blockPlan evening party)) (5::nat) = [5, 5, 5, 5, 5]"
    by (simp add: blockPlan_def)
  show ?thesis
    using d n l block_cardinality [OF d n l, of "''reset''" no_repeats 99
        "set (map track_id MOCK_TRACKS)" auto 3 "{}" Map.empty evening my_engine 7 party]
    by (simp only: p simp_thms)
qed

text \<open>
  C3. With tweak \<open>no_repeats\<close> and a catalog of pairwise distinct ids that holds at
  least five tracks per planned block, no track id occurs twice in the whole response,
  so none occurs in two blocks. And after every call of the selector, whatever the
  tweak, each returned track's id is in \<open>seen\<close> and in \<open>globalSeen\<close> as the call
  leaves them, which is how the next block receives them; both sets only grow.
\<close>

theorem no_repeats_law:
  assumes "distinct (map track_id catalog)"
    and "5 * length (blockPlan bucket situation) \<le> length catalog"
    and "length catalog \<le> 2097152"
  shows "distinct (concat (map (\<lambda>b. map tr_id (tracks b))
            (buildBlocksWithArtwork catalog oembedCache bucket no_repeats engine seed situation)))
       \<and> (case pickTracksForIntent catalog intent tweak seed' seen situation' blockIndex globalSeen of
            (picked, seen', globalSeen') \<Rightarrow>
              track_id ` set picked \<subseteq> seen' \<and> track_id ` set picked \<subseteq> globalSeen'
              \<and> seen \<subseteq> seen' \<and> globalSeen \<subseteq> globalSeen')"
proof -
  have "card ({} :: string set) + 5 * length (blockPlan bucket situation) \<le> length catalog"
    using assms(2) by simp
  then have "distinct (concat (map (\<lambda>b. map track_id (snd (snd b)))
          (pickBlocks catalog no_repeats seed situation 0 {} {} (blockPlan bucket situation))))"
    using pickBlocks_no_repeats [OF assms(1), of "{}" "blockPlan bucket situation" seed situation 0 "{}"]
    by simp
  then have a: "distinct (concat (map (\<lambda>b. map tr_id (tracks b))
            (buildBlocksWithArtwork catalog oembedCache bucket no_repeats engine seed situation)))"
    by (simp only: buildBlocks_ids)
  obtain picked seen1 g1 where
    pk: "pickTracksForIntent catalog intent tweak seed' seen situation' blockIndex globalSeen
         = (picked, seen1, g1)"
    by (metis prod_cases3)
  show ?thesis
    using a pickTracksForIntent_sets [OF pk] by (simp add: pk)
qed

theorem no_repeats_law_witness:
  "distinct (map track_id MOCK_TRACKS)
   \<and> 5 * length (blockPlan morning auto) \<le> length MOCK_TRACKS
   \<and> length MOCK_TRACKS \<le> 2097152
   \<and> length (buildBlocksWithArtwork MOCK_TRACKS Map.empty morning no_repeats my_engine 7 auto) = 4
   \<and> distinct (concat (map (\<lambda>b. map tr_id (tracks b))
         (buildBlocksWithArtwork MOCK_TRACKS Map.empty morning no_repeats my_engine 7 auto)))"
proof -
  have d: "distinct (map track_id MOCK_TRACKS)" by (rule MOCK_TRACKS_distinct)
  have n: "5 * length (blockPlan morning auto) \<le> length MOCK_TRACKS"
    by (simp add: MOCK_TRACKS_length blockPlan_def)
  have l: "length MOCK_TRACKS \<le> 2097152" by (simp add: MOCK_TRACKS_length)
  have k: "length (buildBlocksWithArtwork MOCK_TRACKS Map.empty morning no_repeats my_engine 7 auto) = 4"
    by (simp add: buildBlocks_length blockPlan_def)
  have "distinct (concat (map (\<lambda>b. map tr_id (tracks b))
         (buildBlocksWithArtwork MOCK_TRACKS Map.empty morning no_repeats my_engine 7 auto)))"
    using no_repeats_law [OF d n l, of Map.empty my_engine 7] by (rule conjunct1)
  then show ?thesis
    using d n l k by blast
qed

subsection \<open>Scoring\<close>

lemma bias_fold:
  "foldl (\<lambda>sc tag. if w tag > 0 then sc + w tag * (1 / 2) else sc) s ts
   = s + (\<Sum>tag\<leftarrow>ts. if w tag > (0 :: rat) then (1 / 2) * w tag else 0)"
  by (induction ts arbitrary: s) simp_all

lemma scoreTrack_stated:
  "scoreTrack t intent tweak
   = (if intent \<in> set (tags t) then 6 else 0) + (if intent = ''discovery'' then 1 else 0)
     + tweakAdjustment tweak t"
  by (cases tweak) (simp_all add: scoreTrack_def tweakAdjustment_def Let_def)

lemma intentBoost_auto: "intentBoost auto tag = 0"
  by (simp add: intentBoost_def)

lemma trackScore_split:
  "trackScore t intent tweak situation blockIndex globalSeen
   = statedScore t intent tweak situation + featureNudge situation (profile t)
     - duplicatePenalty (track_id t \<in> globalSeen) blockIndex"
proof (cases "situation = auto")
  case True
  then show ?thesis
    by (simp add: trackScore_def Let_def statedScore_def featureNudge_def duplicatePenalty_def
        scoreTrack_stated intentBoost_auto)
next
  case False
  then show ?thesis
    by (cases situation)
      (simp_all add: trackScore_def Let_def statedScore_def featureNudge_def duplicatePenalty_def
        scoreTrack_stated bias_fold)
qed

text \<open>
  C6, as amended. For every track, intent, tweak, situation, block index and set of
  already chosen ids, the score that orders the catalog is the stated sum (6 for an
  intent among the tags, 1 more for discovery, the tweak adjustment, and half of each
  positive situation weight of a tag of the track, negative weights left out) plus the
  feature nudges of the situation minus the penalty for a track already chosen in an
  earlier block; it is the stated sum alone when the situation is \<open>auto\<close> or
  \<open>working\<close> and the track has not been chosen before.
\<close>

theorem score_decomposition:
  "trackScore t intent tweak situation blockIndex globalSeen
   = statedScore t intent tweak situation + featureNudge situation (profile t)
     - duplicatePenalty (track_id t \<in> globalSeen) blockIndex
   \<and> ((situation = auto \<or> situation = working) \<and> track_id t \<notin> globalSeen
        \<longrightarrow> trackScore t intent tweak situation blockIndex globalSeen
            = statedScore t intent tweak situation)"
proof (intro conjI impI)
  show "trackScore t intent tweak situation blockIndex globalSeen
        = statedScore t intent tweak situation + featureNudge situation (profile t)
          - duplicatePenalty (track_id t \<in> globalSeen) blockIndex"
    by (rule trackScore_split)
next
  assume a: "(situation = auto \<or> situation = working) \<and> track_id t \<notin> globalSeen"
  then have "featureNudge situation (profile t) = 0"
    by (auto simp add: featureNudge_def)
  moreover have "duplicatePenalty (track_id t \<in> globalSeen) blockIndex = 0"
    using a by (simp add: duplicatePenalty_def)
  ultimately show "trackScore t intent tweak situation blockIndex globalSeen
                   = statedScore t intent tweak situation"
    by (simp only: trackScore_split add_0_right diff_zero)
qed

theorem score_decomposition_witness:
  "(working = auto \<or> working = working) \<and> track_id (MOCK_TRACKS ! 0) \<notin> {}
   \<and> trackScore (MOCK_TRACKS ! 0) ''focus'' more_new working 0 {}
       = statedScore (MOCK_TRACKS ! 0) ''focus'' more_new working"
  using score_decomposition [of "MOCK_TRACKS ! 0" "''focus''" more_new working 0 "{}"]
  by simp

text \<open>The stated sum alone is not the score: for the catalog's fifth track (Bloom, noise
  level low) under \<open>studying\<close> the code adds 2 to it.\<close>

theorem score_is_not_stated_sum:
  "trackScore (MOCK_TRACKS ! 4) ''focus'' none studying 0 {} = 19 / 2
   \<and> statedScore (MOCK_TRACKS ! 4) ''focus'' none studying = 15 / 2"
  by code_simp

subsection \<open>Baseline mode\<close>

lemma blockPlan_titles:
  "bi_title ` set (blockPlan bucket situation) \<subseteq> set planTitles"
  by (cases situation; cases bucket) (simp_all add: blockPlan_def planTitles_def mk_def)

lemma generic_not_plan: "set genericTitles \<inter> set planTitles = {}"
  by (simp add: genericTitles_def genericTitle_def planTitles_def blockPlan_def mk_def)

lemma genericTitle_generic: "genericTitle idx \<in> set genericTitles"
  by (simp add: genericTitles_def genericTitle_def)

lemma finishBlock_baseline:
  "list_all (\<lambda>t. reason t = []) (tracks (finishBlock oembedCache bucket spotify_ai situation b))
   \<and> block_title (finishBlock oembedCache bucket spotify_ai situation b) \<in> set genericTitles
   \<and> block_title (finishBlock oembedCache bucket spotify_ai situation b) \<notin> set planTitles"
proof -
  have a: "list_all (\<lambda>t. reason t = [])
             (tracks (finishBlock oembedCache bucket spotify_ai situation b))"
    by (cases b) (simp add: finishBlock_def Let_def list_all_iff)
  have b: "block_title (finishBlock oembedCache bucket spotify_ai situation b) \<in> set genericTitles"
    by (cases b) (simp add: finishBlock_def Let_def genericTitle_generic)
  then have "block_title (finishBlock oembedCache bucket spotify_ai situation b) \<notin> set planTitles"
    using generic_not_plan by blast
  then show ?thesis using a b by blast
qed

lemma buildBlocks_baseline:
  "list_all (\<lambda>b. list_all (\<lambda>t. reason t = []) (tracks b)
                 \<and> block_title b \<in> set genericTitles \<and> block_title b \<notin> set planTitles)
     (buildBlocksWithArtwork catalog oembedCache bucket tweak spotify_ai seed situation)"
  using finishBlock_baseline [of oembedCache bucket situation]
  by (auto simp add: buildBlocksWithArtwork_def Let_def list_all_iff)

text \<open>
  C8. For every request whose engine parameter reads \<open>spotify_ai\<close> (the baseline
  engine), every track of every block has the empty string as reason, and every block
  title is one of the five generic labels, none of which is a title of any situation
  preset or time-based plan.
\<close>

theorem baseline_mode:
  assumes "getEngine (q_engine q) = spotify_ai"
  shows "list_all (\<lambda>b. list_all (\<lambda>t. reason t = []) (tracks b)
                       \<and> block_title b \<in> set genericTitles \<and> block_title b \<notin> set planTitles)
           (GET_blocks oembedCache nowMinutes q)"
  using assms buildBlocks_baseline
  by (simp add: GET_blocks_def Let_def split: resolved.splits)

lemma getEngine_spotify: "getEngine (Some ''spotify_ai'') = spotify_ai"
  by code_simp

lemma getSituation_party: "sr_situation (getSituation (Some ''party'')) = Known party"
  by code_simp

theorem baseline_mode_witness:
  "getEngine (q_engine \<lparr>q_time = None, q_tweak = None, q_engine = Some ''spotify_ai'',
                        q_situation = Some ''party''\<rparr>) = spotify_ai
   \<and> length (GET_blocks Map.empty 600 \<lparr>q_time = None, q_tweak = None,
                 q_engine = Some ''spotify_ai'', q_situation = Some ''party''\<rparr>) = 5
   \<and> list_all (\<lambda>b. list_all (\<lambda>t. reason t = []) (tracks b)
                    \<and> block_title b \<in> set genericTitles \<and> block_title b \<notin> set planTitles)
        (GET_blocks Map.empty 600 \<lparr>q_time = None, q_tweak = None,
                 q_engine = Some ''spotify_ai'', q_situation = Some ''party''\<rparr>)"
proof -
  let ?q = "\<lparr>q_time = None, q_tweak = None, q_engine = Some ''spotify_ai'',
             q_situation = Some ''party''\<rparr>"
  have e: "getEngine (q_engine ?q) = spotify_ai"
    by (simp add: getEngine_spotify)
  have n: "length (GET_blocks Map.empty 600 ?q) = 5"
    by (simp add: GET_blocks_def Let_def getSituation_party buildBlocks_length blockPlan_def)
  show ?thesis
    using e n baseline_mode [OF e, of Map.empty 600] by blast
qed

subsection \<open>Unknown parameters\<close>

lemma parseTimeOverride_absent:
  "parseTimeOverride None = None" "parseTimeOverride (Some []) = None"
  by (simp_all add: parseTimeOverride_def)

lemma parseTimeOverride_wrong_length:
  "length (trim s) \<noteq> 5 \<Longrightarrow> parseTimeOverride (Some s) = None"
  by (auto simp add: parseTimeOverride_def split: list.splits)

lemma chicagoMinutes_fallback:
  "parseTimeOverride (q_time q) = None \<Longrightarrow> chicagoMinutes nowMinutes q = nowMinutes"
  by (simp add: chicagoMinutes_def)

lemma getTweak_default:
  "trim s \<noteq> ''more_new'' \<Longrightarrow> trim s \<noteq> ''more_familiar'' \<Longrightarrow> trim s \<noteq> ''no_repeats''
   \<Longrightarrow> getTweak (Some s) = none"
  "getTweak None = none"
  by (simp_all add: getTweak_def trim_def)

lemma getEngine_default:
  "trim s \<noteq> ''spotify_ai'' \<Longrightarrow> getEngine (Some s) = my_engine"
  "getEngine None = my_engine"
  by (simp_all add: getEngine_def trim_def)

lemma getSituation_default:
  "map_of aliasMap (normalizeSituation s) = None
   \<Longrightarrow> normalizeSituation s \<notin> set object_prototype_keys
   \<Longrightarrow> sr_situation (getSituation (Some s)) = Known auto"
  by (simp add: getSituation_def Let_def)

lemma getSituation_absent: "sr_situation (getSituation None) = Known auto"
  by code_simp

text \<open>
  C9. The claim asks that every unrecognized situation value be normalized to
  \<open>auto\<close>. The value \<open>constructor\<close> is no key of the alias table, yet the lookup
  \<open>aliasMap[normalized]\<close> finds the member every object inherits, which is truthy, so
  the situation is not \<open>auto\<close>; the block plan is then empty and the response has no
  blocks, whatever the clock and the cache.
\<close>

theorem inherited_situation_is_not_auto:
  "sr_situation (getSituation (Some ''constructor'')) = Inherited
   \<and> sr_situation (getSituation (Some ''constructor'')) \<noteq> Known auto
   \<and> GET_blocks oembedCache nowMinutes
        \<lparr>q_time = None, q_tweak = None, q_engine = None, q_situation = Some ''constructor''\<rparr> = []"
proof -
  have "sr_situation (getSituation (Some ''constructor'')) = Inherited"
    by code_simp
  then show ?thesis
    by (simp add: GET_blocks_def Let_def)
qed

subsection \<open>What the blocks depend on\<close>

lemma finishBlock_picks:
  "map (\<lambda>t. (tr_id t, reason t)) (tracks (finishBlock oembedCache bucket engine situation b))
   = map (\<lambda>t. (track_id t,
                 if engine = spotify_ai then [] else generateFeatureBasedReason t (bi_title (fst b))))
       (snd (snd b))"
  by (cases b) (simp add: finishBlock_def Let_def comp_def)

lemma buildBlocks_picks:
  "block_picks (buildBlocksWithArtwork catalog oembedCache bucket tweak engine seed situation)
   = map (\<lambda>b. map (\<lambda>t. (track_id t,
                 if engine = spotify_ai then [] else generateFeatureBasedReason t (bi_title (fst b))))
              (snd (snd b)))
       (pickBlocks catalog tweak seed situation 0 {} {} (blockPlan bucket situation))"
  by (simp add: block_picks_def buildBlocksWithArtwork_def Let_def comp_def finishBlock_picks)

lemma GET_blocks_picks_cache:
  "block_picks (GET_blocks cache1 nowMinutes q) = block_picks (GET_blocks cache2 nowMinutes q)"
  by (cases "sr_situation (getSituation (q_situation q))")
    (simp_all add: GET_blocks_def Let_def buildBlocks_picks)

lemma requestSeed_clock:
  assumes "getTimeBucketFromMinutes (int (chicagoMinutes now1 q))
           = getTimeBucketFromMinutes (int (chicagoMinutes now2 q))"
  shows "requestSeed now1 q situation = requestSeed now2 q situation"
  using assms by (simp add: requestSeed_def)

lemma GET_blocks_clock:
  assumes "getTimeBucketFromMinutes (int (chicagoMinutes now1 q))
           = getTimeBucketFromMinutes (int (chicagoMinutes now2 q))"
  shows "GET_blocks oembedCache now1 q = GET_blocks oembedCache now2 q"
  using assms requestSeed_clock [OF assms]
  by (cases "sr_situation (getSituation (q_situation q))") (simp_all add: GET_blocks_def Let_def)

text \<open>
  C1, as amended. For a fixed tuple (time, tweak, engine, situation), two evaluations of
  the handler give the same blocks (the same track ids in the same order with the same
  reasons), whatever the clock and the artwork cache at either evaluation, provided the
  time parameter is a valid override or the clock falls into the same time bucket at
  both evaluations; under the same proviso the seed, a hash of the normalized context
  alone, is the same.
\<close>

theorem blocks_determined_by_context:
  assumes "parseTimeOverride (q_time q) \<noteq> None
           \<or> getTimeBucketFromMinutes (int now1) = getTimeBucketFromMinutes (int now2)"
  shows "block_picks (GET_blocks cache1 now1 q) = block_picks (GET_blocks cache2 now2 q)
       \<and> requestSeed now1 q situation = requestSeed now2 q situation"
proof -
  have "getTimeBucketFromMinutes (int (chicagoMinutes now1 q))
        = getTimeBucketFromMinutes (int (chicagoMinutes now2 q))"
    using assms by (auto simp add: chicagoMinutes_def split: option.splits)
  then have "GET_blocks cache1 now1 q = GET_blocks cache1 now2 q"
    and s: "requestSeed now1 q situation = requestSeed now2 q situation"
    by (rule GET_blocks_clock, rule requestSeed_clock)
  then have "block_picks (GET_blocks cache1 now1 q) = block_picks (GET_blocks cache1 now2 q)"
    by simp
  also have "\<dots> = block_picks (GET_blocks cache2 now2 q)"
    by (rule GET_blocks_picks_cache)
  finally show ?thesis using s by simp
qed

lemma parseTimeOverride_0830: "parseTimeOverride (Some ''08:30'') = Some (8, 30)"
  by code_simp

theorem blocks_determined_by_context_witness:
  "parseTimeOverride (q_time \<lparr>q_time = Some ''08:30'', q_tweak = None, q_engine = None,
                              q_situation = None\<rparr>) \<noteq> None
   \<and> length (GET_blocks Map.empty 0 \<lparr>q_time = Some ''08:30'', q_tweak = None, q_engine = None,
                                     q_situation = None\<rparr>) = 4
   \<and> block_picks (GET_blocks Map.empty 0 \<lparr>q_time = Some ''08:30'', q_tweak = None,
                                          q_engine = None, q_situation = None\<rparr>)
     = block_picks (GET_blocks Map.empty 900 \<lparr>q_time = Some ''08:30'', q_tweak = None,
                                          q_engine = None, q_situation = None\<rparr>)"
proof -
  let ?q = "\<lparr>q_time = Some ''08:30'', q_tweak = None, q_engine = None, q_situation = None\<rparr>"
  have p: "parseTimeOverride (q_time ?q) \<noteq> None"
    by (simp add: parseTimeOverride_0830)
  have n: "length (GET_blocks Map.empty 0 ?q) = 4"
    by (simp add: GET_blocks_def Let_def getSituation_absent buildBlocks_length blockPlan_def
        chicagoMinutes_def parseTimeOverride_0830 getTimeBucketFromMinutes_def)
  show ?thesis
    using p n blocks_determined_by_context [of ?q 0 900 Map.empty Map.empty auto, OF disjI1, OF p]
    by blast
qed

subsection \<open>A request without a time parameter follows the clock\<close>

lemma digit_chars: "map digit_char [0, 1, 2, 3, 4, 5, 6, 7, 8, 9] = ''0123456789''"
  by code_simp

lemma digit_char_digit: "d < 10 \<Longrightarrow> digit_char d \<in> set ''0123456789''"
proof -
  assume "d < 10"
  then have "d \<in> set [0, 1, 2, 3, 4, 5, 6, 7, 8, 9]" by auto
  then have "digit_char d \<in> set (map digit_char [0, 1, 2, 3, 4, 5, 6, 7, 8, 9])"
    by (simp only: set_map) (rule imageI)
  then show ?thesis by (simp only: digit_chars)
qed

lemma string_of_nat_head:
  "string_of_nat n \<noteq> [] \<and> hd (string_of_nat n) \<in> set ''0123456789''"
proof (induction n rule: string_of_nat.induct)
  case (1 n)
  show ?case
  proof (cases "n < 10")
    case True
    then show ?thesis
      using digit_char_digit [of n] by (simp add: string_of_nat.simps [of n])
  next
    case False
    then show ?thesis
      using 1 by (simp add: string_of_nat.simps [of n])
  qed
qed

lemma reason_momentum_head:
  "hd (generateFeatureBasedReason t ''If you want momentum'') \<in> set ''0123456789''"
  using string_of_nat_head [of "bpm (profile t)"]
  by (simp add: generateFeatureBasedReason_def Let_def)

lemma reason_deep_focus_head:
  "hd (generateFeatureBasedReason t ''If you want deep focus'') \<in> set ''LS''"
  by (simp add: generateFeatureBasedReason_def Let_def)

lemma first_reason:
  assumes "blockPlan bucket situation = p # ps"
    and "distinct (map track_id catalog)" and "5 \<le> length catalog"
  shows "\<exists>t. snd (hd (hd (block_picks
            (buildBlocksWithArtwork catalog oembedCache bucket tweak my_engine seed situation))))
          = generateFeatureBasedReason t (bi_title p)"
proof -
  obtain picked seen' g' where
    pk: "pickTracksForIntent catalog (bi_intent p) tweak (seed + int 0 * 101) {} situation 0 {}
         = (picked, seen', g')"
    by (metis prod_cases3)
  have "length picked = 5"
    using pickTracksForIntent_length [OF assms(2,3), of "bi_intent p" tweak "seed + int 0 * 101" "{}"
        situation 0 "{}"] pk by simp
  then obtain t ts where "picked = t # ts" by (cases picked) auto
  then have "snd (hd (hd (block_picks
            (buildBlocksWithArtwork catalog oembedCache bucket tweak my_engine seed situation))))
          = generateFeatureBasedReason t (bi_title p)"
    using pk by (simp add: buildBlocks_picks assms(1) Let_def)
  then show ?thesis by blast
qed

lemma GET_blocks_no_parameters:
  "GET_blocks oembedCache nowMinutes
     \<lparr>q_time = None, q_tweak = None, q_engine = None, q_situation = None\<rparr>
   = buildBlocksWithArtwork MOCK_TRACKS oembedCache (getTimeBucketFromMinutes (int nowMinutes)) none
       my_engine
       (uint (requestSeed nowMinutes
                \<lparr>q_time = None, q_tweak = None, q_engine = None, q_situation = None\<rparr> auto))
       auto"
  by (simp add: GET_blocks_def Let_def getSituation_absent getTweak_default getEngine_default
      chicagoMinutes_def parseTimeOverride_absent)

text \<open>The request without any parameter, evaluated at 08:00 and at 13:00 on the clock:
  the first reason of the first block starts with a digit in the morning (the default
  phrasing, which opens with the tempo) and with a letter at midday (the focus
  phrasing), so the blocks differ.\<close>

theorem blocks_follow_the_clock:
  "block_picks (GET_blocks Map.empty 480
      \<lparr>q_time = None, q_tweak = None, q_engine = None, q_situation = None\<rparr>)
   \<noteq> block_picks (GET_blocks Map.empty 780
      \<lparr>q_time = None, q_tweak = None, q_engine = None, q_situation = None\<rparr>)"
proof
  let ?q = "\<lparr>q_time = None, q_tweak = None, q_engine = None, q_situation = None\<rparr>"
  let ?B1 = "buildBlocksWithArtwork MOCK_TRACKS Map.empty morning none my_engine
               (uint (requestSeed 480 ?q auto)) auto"
  let ?B2 = "buildBlocksWithArtwork MOCK_TRACKS Map.empty midday none my_engine
               (uint (requestSeed 780 ?q auto)) auto"
  let ?p1 = "mk ''If you want momentum'' ''Start your day with energy'' ''energy''"
  let ?p2 = "mk ''If you want deep focus'' ''Steady tracks for midday work'' ''focus''"
  assume eq: "block_picks (GET_blocks Map.empty 480 ?q) = block_picks (GET_blocks Map.empty 780 ?q)"
  have d: "distinct (map track_id MOCK_TRACKS)" by (rule MOCK_TRACKS_distinct)
  have n: "5 \<le> length MOCK_TRACKS" by (simp add: MOCK_TRACKS_length)
  have g1: "GET_blocks Map.empty 480 ?q = ?B1"
    by (simp add: GET_blocks_no_parameters getTimeBucketFromMinutes_def)
  have g2: "GET_blocks Map.empty 780 ?q = ?B2"
    by (simp add: GET_blocks_no_parameters getTimeBucketFromMinutes_def)
  have pm: "blockPlan morning auto = ?p1 # tl (blockPlan morning auto)"
    and pa: "blockPlan midday auto = ?p2 # tl (blockPlan midday auto)"
    by (simp_all add: blockPlan_def)
  have t1: "bi_title ?p1 = ''If you want momentum''" and t2: "bi_title ?p2 = ''If you want deep focus''"
    by (simp_all add: mk_def)
  have "\<exists>t. snd (hd (hd (block_picks ?B1))) = generateFeatureBasedReason t (bi_title ?p1)"
    using pm d n by (rule first_reason)
  then obtain t where t: "snd (hd (hd (block_picks ?B1)))
                          = generateFeatureBasedReason t ''If you want momentum''"
    unfolding t1 by blast
  have "\<exists>u. snd (hd (hd (block_picks ?B2))) = generateFeatureBasedReason u (bi_title ?p2)"
    using pa d n by (rule first_reason)
  then obtain u where u: "snd (hd (hd (block_picks ?B2)))
                          = generateFeatureBasedReason u ''If you want deep focus''"
    unfolding t2 by blast
  have "block_picks ?B1 = block_picks ?B2"
    using eq unfolding g1 g2 .
  then have "generateFeatureBasedReason t ''If you want momentum''
             = generateFeatureBasedReason u ''If you want deep focus''"
    using t u by simp
  then have "hd (generateFeatureBasedReason t ''If you want momentum'')
             = hd (generateFeatureBasedReason u ''If you want deep focus'')"
    by simp
  then show False
    using reason_momentum_head [of t] reason_deep_focus_head [of u] by auto
qed


end
